theory Spec2Isabelle
  imports Complex_Main
begin

section \<open>Common data\<close>

text \<open>
  The engines are TypeScript. A number is modelled by the rational (\<open>rat\<close>) that the
  double holds; integer-valued counters and levels are \<open>int\<close>. The commission engine is
  modelled in exact arithmetic, and the concrete inputs evaluated for it are small values
  on which IEEE double arithmetic gives the same results. In the fraud engine and in the
  propagation of team volumes the arithmetic is an argument of the model (see \<open>Arith\<close>
  below), since there the properties stated depend on how a result is rounded.

  A \<open>Date\<close> is modelled by the three observations the engines make of it:
  \<open>getTime()\<close> (milliseconds), \<open>getFullYear()\<close> and \<open>getMonth()\<close>. The engines read the
  clock with \<open>new Date()\<close>; every function that does so takes that reading as its
  argument \<open>now\<close> (one reading per call).
\<close>

record Date =
  getTime :: int
  getFullYear :: int
  getMonth :: int

datatype error =
    InvalidAmount
  | PartnerNotFound
  | NewSponsorNotFound
  | SelfCycle
  | DepthExceeded

text \<open>JavaScript truthiness of an optional number: present and not zero.\<close>

definition truthy_num :: "rat option \<Rightarrow> bool" where
  "truthy_num v = (case v of None \<Rightarrow> False | Some x \<Rightarrow> x \<noteq> 0)"

text \<open>JavaScript truthiness of an optional string: present and not empty.\<close>

definition truthy_str :: "string option \<Rightarrow> bool" where
  "truthy_str v = (case v of None \<Rightarrow> False | Some x \<Rightarrow> x \<noteq> [])"

text \<open>\<open>Math.round(x * 100) / 100\<close>; \<open>Math.round\<close> rounds halves towards plus infinity.\<close>

definition round2 :: "rat \<Rightarrow> rat" where
  "round2 x = of_int \<lfloor>x * 100 + 1 / 2\<rfloor> / 100"

text \<open>
  The four operations of double arithmetic, as functions on the values doubles hold: the
  JavaScript \<open>*\<close>, \<open>/\<close>, \<open>+\<close> and \<open>-\<close> round their exact result to a double.
  A model that takes an \<open>Arith\<close> computes with whatever operations it is given, so a
  theorem about it for every \<open>ar\<close> holds of the double operations in particular.
  Comparisons, \<open>Math.max\<close> and \<open>Math.min\<close> do not round.
\<close>

record Arith =
  fmul :: "rat \<Rightarrow> rat \<Rightarrow> rat"
  fdiv :: "rat \<Rightarrow> rat \<Rightarrow> rat"
  fadd :: "rat \<Rightarrow> rat \<Rightarrow> rat"
  fsub :: "rat \<Rightarrow> rat \<Rightarrow> rat"

text \<open>
  The operations without rounding, for evaluating a model at inputs on which the double
  operations involved lead to the same results.
\<close>

definition exactArith :: Arith where
  "exactArith = \<lparr> fmul = (\<lambda>x y. x * y), fdiv = (\<lambda>x y. x / y),
                   fadd = (\<lambda>x y. x + y), fsub = (\<lambda>x y. x - y) \<rparr>"

section \<open>Commission engine (lib/engines/commission-calculator.ts)\<close>

subsection \<open>Data model\<close>

record Transaction =
  tx_id :: string
  tx_partnerId :: string
  tx_customerEmail :: string
  tx_amount :: rat
  tx_currency :: string
  tx_productId :: string
  tx_timestamp :: Date

datatype CommissionType = percentage | fixed

record CommissionResult =
  cr_partnerId :: string
  cr_level :: int
  cr_tierName :: string
  cr_baseAmount :: rat
  cr_commissionRate :: rat
  cr_commissionAmount :: rat
  cr_commissionType :: CommissionType
  cr_currency :: string

text \<open>
  A bonus trigger's \<open>value\<close> is a number, or an array of numbers for the operator
  \<open>between\<close>.
\<close>

datatype TriggerValue = Single rat | Range "rat list"

record BonusResult =
  br_partnerId :: string
  br_bonusId :: string
  br_bonusName :: string
  br_amount :: rat
  br_currency :: string
  br_triggerMetric :: string
  br_triggerValue :: TriggerValue

record CommissionDistribution =
  transactionId :: string
  totalCommissionPaid :: rat
  commissions :: "CommissionResult list"
  bonuses :: "BonusResult list"
  processingTimestamp :: Date

record PartnerHierarchyNode =
  n_id :: string
  n_sponsorId :: "string option"
  n_level :: int
  n_personalVolume :: rat
  n_teamVolume :: rat
  n_monthlyVolume :: rat
  n_activeDownline :: rat
  n_joinDate :: Date
  n_currentMonthEarnings :: "rat option"
  n_consecutiveActiveMonths :: "rat option"
  n_certifications :: "string list option"

record Subscription =
  sub_id :: string
  sub_partnerId :: string
  sub_customerEmail :: string
  sub_productId :: string
  sub_monthlyAmount :: rat
  sub_currency :: string
  sub_startDate :: Date

record QualificationCriteria =
  qc_personalVolume :: "rat option"
  qc_teamVolume :: "rat option"
  qc_activeDownline :: "rat option"
  qc_timeInBusiness :: "rat option"
  qc_certificationRequired :: "string list option"

record CommissionTier =
  tier_level :: int
  tier_name :: string
  tier_qualificationCriteria :: QualificationCriteria
  tier_commissionRate :: rat
  tier_commissionType :: CommissionType
  tier_minimumVolume :: "rat option"
  tier_maximumEarnings :: "rat option"

text \<open>
  \<open>BonusRule\<close> and \<open>ProductConfig\<close> are declared empty in \<open>lib/types/config.ts\<close>; their
  fields are the ones the engine reads.
\<close>

record BonusTrigger =
  trg_metric :: string
  trg_operator :: string
  trg_value :: TriggerValue

record BonusReward =
  rw_type :: string
  rw_value :: rat
  rw_currency :: "string option"

record BonusRule =
  bonus_id :: string
  bonus_name :: string
  bonus_eligibilityCriteria :: QualificationCriteria
  bonus_trigger :: BonusTrigger
  bonus_reward :: BonusReward

record CommissionCap =
  cap_id :: string
  cap_name :: string
  cap_maxAmount :: rat
  cap_applicableLevels :: "int list option"
  cap_applicableToAll :: "bool option"

record ProductConfig =
  prod_id :: string
  prod_commissionEligible :: bool
  prod_commissionRates :: "(int \<times> rat) list option"

record PartnerConfig =
  maxHierarchyLevels :: int
  autoActivation :: bool

record CommissionConfig =
  tiers :: "CommissionTier list"
  cfg_bonuses :: "BonusRule list"
  caps :: "CommissionCap list option"
  residualEnabled :: bool
  residualPeriod :: int

record MLMSystemConfig =
  cfg_partner :: PartnerConfig
  cfg_commission :: CommissionConfig
  cfg_products :: "ProductConfig list"

subsection \<open>Qualification and tier selection\<close>

definition calculateMonthsInBusiness :: "Date \<Rightarrow> Date \<Rightarrow> int" where
  "calculateMonthsInBusiness now joinDate =
     (getFullYear now - getFullYear joinDate) * 12 + (getMonth now - getMonth joinDate)"

definition isPartnerQualified :: "Date \<Rightarrow> PartnerHierarchyNode \<Rightarrow> CommissionTier \<Rightarrow> bool" where
  "isPartnerQualified now partner tier =
     (let criteria = tier_qualificationCriteria tier in
      if truthy_num (qc_personalVolume criteria)
         \<and> n_personalVolume partner < the (qc_personalVolume criteria) then False
      else if truthy_num (qc_teamVolume criteria)
         \<and> n_teamVolume partner < the (qc_teamVolume criteria) then False
      else if truthy_num (qc_activeDownline criteria)
         \<and> n_activeDownline partner < the (qc_activeDownline criteria) then False
      else if truthy_num (qc_timeInBusiness criteria)
         \<and> of_int (calculateMonthsInBusiness now (n_joinDate partner))
              < the (qc_timeInBusiness criteria) then False
      else if (case qc_certificationRequired criteria of
                 None \<Rightarrow> False
               | Some certs \<Rightarrow> certs \<noteq> []
                   \<and> \<not> list_all (\<lambda>cert. case n_certifications partner of
                                             None \<Rightarrow> False
                                           | Some have \<Rightarrow> cert \<in> set have) certs) then False
      else True)"

text \<open>The reducer of \<open>findApplicableTier\<close>: keep \<open>best\<close> unless \<open>current\<close> has a strictly
  greater rate.\<close>

definition betterTier :: "CommissionTier option \<Rightarrow> CommissionTier \<Rightarrow> CommissionTier option" where
  "betterTier best current =
     (case best of
        None \<Rightarrow> Some current
      | Some b \<Rightarrow> if tier_commissionRate current > tier_commissionRate b
                  then Some current else Some b)"

definition applicableTiers ::
  "MLMSystemConfig \<Rightarrow> Date \<Rightarrow> PartnerHierarchyNode \<Rightarrow> int \<Rightarrow> CommissionTier list" where
  "applicableTiers cfg now partner lvl =
     filter (\<lambda>tier. tier_level tier = lvl \<and> isPartnerQualified now partner tier)
       (tiers (cfg_commission cfg))"

definition findApplicableTier ::
  "MLMSystemConfig \<Rightarrow> Date \<Rightarrow> PartnerHierarchyNode \<Rightarrow> int \<Rightarrow> CommissionTier option" where
  "findApplicableTier cfg now partner lvl =
     foldl betterTier None (applicableTiers cfg now partner lvl)"

subsection \<open>Commission of one tier\<close>

definition isCapApplicable :: "CommissionCap \<Rightarrow> PartnerHierarchyNode \<Rightarrow> int \<Rightarrow> bool" where
  "isCapApplicable cap partner lvl =
     ((case cap_applicableLevels cap of None \<Rightarrow> False | Some ls \<Rightarrow> lvl \<in> set ls)
      \<or> (case cap_applicableToAll cap of None \<Rightarrow> False | Some b \<Rightarrow> b))"

definition applyCaps ::
  "MLMSystemConfig \<Rightarrow> PartnerHierarchyNode \<Rightarrow> int \<Rightarrow> rat \<Rightarrow> rat" where
  "applyCaps cfg partner lvl amount0 =
     foldl (\<lambda>commissionAmount cap.
              if isCapApplicable cap partner lvl
              then min commissionAmount (cap_maxAmount cap) else commissionAmount)
       amount0
       (case caps (cfg_commission cfg) of None \<Rightarrow> [] | Some cs \<Rightarrow> cs)"

text \<open>\<open>product.commissionRates?.[level] || tier.commissionRate\<close>\<close>

definition rateFor :: "ProductConfig \<Rightarrow> CommissionTier \<Rightarrow> int \<Rightarrow> rat" where
  "rateFor product tier lvl =
     (case prod_commissionRates product of
        None \<Rightarrow> tier_commissionRate tier
      | Some rates \<Rightarrow>
          (case map_of rates lvl of
             None \<Rightarrow> tier_commissionRate tier
           | Some r \<Rightarrow> if r \<noteq> 0 then r else tier_commissionRate tier))"

definition calculateTierCommission ::
  "MLMSystemConfig \<Rightarrow> Transaction \<Rightarrow> PartnerHierarchyNode \<Rightarrow> CommissionTier \<Rightarrow> int
     \<Rightarrow> ProductConfig \<Rightarrow> CommissionResult option" where
  "calculateTierCommission cfg transaction partner tier lvl product =
     (let commissionRate = rateFor product tier lvl;
          amount1 = (case tier_commissionType tier of
                       percentage \<Rightarrow> tx_amount transaction * commissionRate
                     | fixed \<Rightarrow> commissionRate)
      in if truthy_num (tier_minimumVolume tier)
            \<and> tx_amount transaction < the (tier_minimumVolume tier) then None
         else
           let amount2 =
                 (if truthy_num (tier_maximumEarnings tier)
                  then let currentMonthEarnings =
                             (case n_currentMonthEarnings partner of None \<Rightarrow> 0 | Some e \<Rightarrow> e);
                           availableEarnings = the (tier_maximumEarnings tier) - currentMonthEarnings
                       in min amount1 availableEarnings
                  else amount1);
               amount3 = applyCaps cfg partner lvl amount2
           in Some \<lparr> cr_partnerId = n_id partner,
                     cr_level = lvl,
                     cr_tierName = tier_name tier,
                     cr_baseAmount = tx_amount transaction,
                     cr_commissionRate = commissionRate,
                     cr_commissionAmount = round2 amount3,
                     cr_commissionType = tier_commissionType tier,
                     cr_currency = tx_currency transaction \<rparr>)"

subsection \<open>Bonuses\<close>

text \<open>
  A relational operator applied to an array coerces the array through its string form:
  the empty array is 0, a one-element array is its element, a longer one is NaN (every
  comparison false). Strict equality with an array is always false.
\<close>

fun toNumber :: "TriggerValue \<Rightarrow> rat option" where
  "toNumber (Single v) = Some v"
| "toNumber (Range []) = Some 0"
| "toNumber (Range [v]) = Some v"
| "toNumber (Range (v # w # vs)) = None"

definition isBonusTriggerMet ::
  "PartnerHierarchyNode \<Rightarrow> BonusRule \<Rightarrow> Transaction \<Rightarrow> bool" where
  "isBonusTriggerMet partner bonusRule transaction =
     (let trigger = bonus_trigger bonusRule;
          m = trg_metric trigger;
          actual =
            (if m = ''monthly_volume'' then Some (n_monthlyVolume partner)
             else if m = ''team_size'' then Some (n_activeDownline partner)
             else if m = ''personal_sales'' then Some (n_personalVolume partner)
             else if m = ''consecutive_months''
               then Some (case n_consecutiveActiveMonths partner of None \<Rightarrow> 0 | Some c \<Rightarrow> c)
             else None);
          opr = trg_operator trigger
      in case actual of
           None \<Rightarrow> False
         | Some actualValue \<Rightarrow>
             if opr = ''equals''
               then (case trg_value trigger of Single v \<Rightarrow> actualValue = v | Range vs \<Rightarrow> False)
             else if opr = ''greater_than''
               then (case toNumber (trg_value trigger) of None \<Rightarrow> False | Some v \<Rightarrow> actualValue > v)
             else if opr = ''less_than''
               then (case toNumber (trg_value trigger) of None \<Rightarrow> False | Some v \<Rightarrow> actualValue < v)
             else if opr = ''between''
               then (case trg_value trigger of
                       Range (lo # hi # vs) \<Rightarrow> actualValue \<ge> lo \<and> actualValue \<le> hi
                     | _ \<Rightarrow> False)
             else False)"

definition bonusAmountOf :: "BonusRule \<Rightarrow> Transaction \<Rightarrow> rat" where
  "bonusAmountOf bonusRule transaction =
     (let reward = bonus_reward bonusRule in
      if rw_type reward = ''fixed_amount'' then rw_value reward
      else if rw_type reward = ''percentage'' then tx_amount transaction * (rw_value reward / 100)
      else 0)"

definition bonusFor ::
  "Date \<Rightarrow> PartnerHierarchyNode \<Rightarrow> Transaction \<Rightarrow> CommissionTier \<Rightarrow> BonusRule
     \<Rightarrow> BonusResult list" where
  "bonusFor now partner transaction tier bonusRule =
     (if \<not> isPartnerQualified now partner
             (tier\<lparr>tier_qualificationCriteria := bonus_eligibilityCriteria bonusRule\<rparr>)
      then []
      else if \<not> isBonusTriggerMet partner bonusRule transaction then []
      else let bonusAmount = bonusAmountOf bonusRule transaction in
        if bonusAmount > 0
        then [\<lparr> br_partnerId = n_id partner,
                 br_bonusId = bonus_id bonusRule,
                 br_bonusName = bonus_name bonusRule,
                 br_amount = round2 bonusAmount,
                 br_currency =
                   (if truthy_str (rw_currency (bonus_reward bonusRule))
                    then the (rw_currency (bonus_reward bonusRule))
                    else tx_currency transaction),
                 br_triggerMetric = trg_metric (bonus_trigger bonusRule),
                 br_triggerValue = trg_value (bonus_trigger bonusRule) \<rparr>]
        else [])"

definition calculateBonuses ::
  "MLMSystemConfig \<Rightarrow> Date \<Rightarrow> PartnerHierarchyNode \<Rightarrow> Transaction \<Rightarrow> CommissionTier
     \<Rightarrow> BonusResult list" where
  "calculateBonuses cfg now partner transaction tier =
     concat (map (bonusFor now partner transaction tier) (cfg_bonuses (cfg_commission cfg)))"

subsection \<open>calculateCommissions\<close>

text \<open>
  The loop over the upline: \<open>lvl\<close> is \<open>i + 1\<close>, the accumulator holds \<open>commissions\<close>,
  \<open>bonuses\<close> and \<open>totalCommissionPaid\<close>.
\<close>

fun levelLoop ::
  "MLMSystemConfig \<Rightarrow> Date \<Rightarrow> Transaction \<Rightarrow> ProductConfig \<Rightarrow> int
     \<Rightarrow> PartnerHierarchyNode list
     \<Rightarrow> CommissionResult list \<times> BonusResult list \<times> rat
     \<Rightarrow> CommissionResult list \<times> BonusResult list \<times> rat" where
  "levelLoop cfg now transaction product lvl [] acc = acc"
| "levelLoop cfg now transaction product lvl (partner # rest) (cs, bs, totalPaid) =
     (case findApplicableTier cfg now partner lvl of
        None \<Rightarrow> levelLoop cfg now transaction product (lvl + 1) rest (cs, bs, totalPaid)
      | Some tier \<Rightarrow>
          (case calculateTierCommission cfg transaction partner tier lvl product of
             None \<Rightarrow> levelLoop cfg now transaction product (lvl + 1) rest (cs, bs, totalPaid)
           | Some commissionResult \<Rightarrow>
               if cr_commissionAmount commissionResult > 0
               then let partnerBonuses = calculateBonuses cfg now partner transaction tier in
                    levelLoop cfg now transaction product (lvl + 1) rest
                      (cs @ [commissionResult], bs @ partnerBonuses,
                       (totalPaid + cr_commissionAmount commissionResult)
                         + foldl (\<lambda>acc bonus. acc + br_amount bonus) 0 partnerBonuses)
               else levelLoop cfg now transaction product (lvl + 1) rest (cs, bs, totalPaid)))"

definition calculateCommissions ::
  "MLMSystemConfig \<Rightarrow> Date \<Rightarrow> Transaction \<Rightarrow> PartnerHierarchyNode list
     \<Rightarrow> error + CommissionDistribution" where
  "calculateCommissions cfg now transaction partnerHierarchy =
     (if tx_amount transaction \<le> 0 then Inl InvalidAmount
      else case find (\<lambda>p. prod_id p = tx_productId transaction) (cfg_products cfg) of
        None \<Rightarrow> Inr \<lparr> transactionId = tx_id transaction, totalCommissionPaid = 0,
                      commissions = [], bonuses = [], processingTimestamp = now \<rparr>
      | Some product \<Rightarrow>
          if \<not> prod_commissionEligible product
          then Inr \<lparr> transactionId = tx_id transaction, totalCommissionPaid = 0,
                      commissions = [], bonuses = [], processingTimestamp = now \<rparr>
          else
            (case levelLoop cfg now transaction product 1
                    (take (nat (maxHierarchyLevels (cfg_partner cfg))) partnerHierarchy)
                    ([], [], 0) of
               (cs, bs, totalPaid) \<Rightarrow>
                 Inr \<lparr> transactionId = tx_id transaction, totalCommissionPaid = totalPaid,
                        commissions = cs, bonuses = bs, processingTimestamp = now \<rparr>))"

subsection \<open>Residual commissions\<close>

text \<open>Decimal rendering of an integer, for the template string of the residual
  transaction's id.\<close>

function digitsOf :: "nat \<Rightarrow> string" where
  "digitsOf n =
     (if n < 10 then [''0123456789'' ! n]
      else digitsOf (n div 10) @ [''0123456789'' ! (n mod 10)])"
  by pat_completeness auto
termination
  by (relation "measure (\<lambda>n. n)") auto

definition showInt :: "int \<Rightarrow> string" where
  "showInt i = (if i < 0 then CHR ''-'' # digitsOf (nat (- i)) else digitsOf (nat i))"

text \<open>
  The body of the loop of \<open>calculateResidualCommissions\<close> for one subscription inside the
  residual period. The transaction's \<open>metadata\<close> is not modelled: nothing reads it.
\<close>

definition residualDistribution ::
  "MLMSystemConfig \<Rightarrow> Date \<Rightarrow> Subscription \<Rightarrow> PartnerHierarchyNode list
     \<Rightarrow> error + CommissionDistribution" where
  "residualDistribution cfg now subscription partnerHierarchy =
     (let residualTransaction =
            \<lparr> tx_id = ''residual_'' @ sub_id subscription @ ''_'' @ showInt (getTime now),
              tx_partnerId = sub_partnerId subscription,
              tx_customerEmail = sub_customerEmail subscription,
              tx_amount = sub_monthlyAmount subscription,
              tx_currency = sub_currency subscription,
              tx_productId = sub_productId subscription,
              tx_timestamp = now \<rparr>
      in case calculateCommissions cfg now residualTransaction partnerHierarchy of
           Inl e \<Rightarrow> Inl e
         | Inr distribution \<Rightarrow>
             let residualFactor = 1 / 2;
                 scaled = map (\<lambda>comm. comm\<lparr>cr_commissionAmount :=
                                            cr_commissionAmount comm * residualFactor\<rparr>)
                            (commissions distribution)
             in Inr (distribution
                      \<lparr> commissions := scaled,
                        totalCommissionPaid :=
                          foldl (\<lambda>acc comm. acc + cr_commissionAmount comm) 0 scaled \<rparr>))"

fun residualLoop ::
  "MLMSystemConfig \<Rightarrow> Date \<Rightarrow> Subscription list \<Rightarrow> PartnerHierarchyNode list
     \<Rightarrow> CommissionDistribution list \<Rightarrow> error + CommissionDistribution list" where
  "residualLoop cfg now [] partnerHierarchy results = Inr results"
| "residualLoop cfg now (subscription # rest) partnerHierarchy results =
     (if calculateMonthsInBusiness now (sub_startDate subscription)
           > residualPeriod (cfg_commission cfg)
      then residualLoop cfg now rest partnerHierarchy results
      else case residualDistribution cfg now subscription partnerHierarchy of
             Inl e \<Rightarrow> Inl e
           | Inr distribution \<Rightarrow>
               residualLoop cfg now rest partnerHierarchy (results @ [distribution]))"

definition calculateResidualCommissions ::
  "MLMSystemConfig \<Rightarrow> Date \<Rightarrow> Subscription list \<Rightarrow> PartnerHierarchyNode list
     \<Rightarrow> error + CommissionDistribution list" where
  "calculateResidualCommissions cfg now subscriptions partnerHierarchy =
     (if \<not> residualEnabled (cfg_commission cfg) then Inr []
      else residualLoop cfg now subscriptions partnerHierarchy [])"

subsection \<open>CommissionUtils.validateCommissionDistribution\<close>

definition validateCommissionDistribution :: "CommissionDistribution \<Rightarrow> bool" where
  "validateCommissionDistribution distribution =
     (let calculatedTotal =
            foldl (\<lambda>acc comm. acc + cr_commissionAmount comm) 0 (commissions distribution)
            + foldl (\<lambda>acc bonus. acc + br_amount bonus) 0 (bonuses distribution)
      in \<bar>calculatedTotal - totalCommissionPaid distribution\<bar> < 1 / 100)"

section \<open>Fraud engine: the referral-velocity detector (lib/engines/fraud-detection.ts)\<close>

text \<open>
  The detector takes \<open>partner: any\<close> and \<open>referrals: any[]\<close>; the records below hold the
  fields it reads. An alert's generated \<open>id\<close> is an argument of the model, and the
  free-text \<open>description\<close> fields, which format numbers into prose and are read by
  nothing, are left out.
\<close>

datatype Severity = Low | Medium | High | Critical

datatype AlertStatus = Open | Investigating | Resolved | FalsePositive

record FraudPartner =
  fp_id :: string
  fp_joinDate :: Date
  fp_totalReferrals :: rat

record Referral =
  ref_createdAt :: Date
  ref_ipAddress :: "string option"

record FraudEvidence =
  ev_type :: string
  ev_value :: "(string \<times> rat) list"
  ev_weight :: rat
  ev_timestamp :: Date

record FraudAlert =
  fa_id :: string
  fa_partnerId :: string
  fa_alertType :: string
  fa_severity :: Severity
  fa_riskScore :: rat
  fa_evidence :: "FraudEvidence list"
  fa_status :: AlertStatus
  fa_createdAt :: Date
  fa_actions :: "string list"
  fa_velocityRatio :: rat
  fa_timeWindow :: string

text \<open>
  The doubles that the literals \<open>0.3\<close>, \<open>0.8\<close> and \<open>0.9\<close> of the source denote.
\<close>

definition lit_0_3 :: rat where
  "lit_0_3 = 5404319552844595 / 18014398509481984"

definition lit_0_8 :: rat where
  "lit_0_8 = 3602879701896397 / 4503599627370496"

definition lit_0_9 :: rat where
  "lit_0_9 = 8106479329266893 / 9007199254740992"

text \<open>
  \<open>nowMs\<close> is the reading of \<open>Date.now()\<close>. The difference of the two times and the
  product \<open>7 * 24 * 60 * 60 * 1000\<close> are integers far below \<open>2^53\<close>, exact in doubles; the
  quotients are rounded.
\<close>

definition calculateNormalReferralVelocity :: "Arith \<Rightarrow> int \<Rightarrow> FraudPartner \<Rightarrow> rat" where
  "calculateNormalReferralVelocity ar nowMs partner =
     (let weeksActive =
            max 1 (fdiv ar (of_int (nowMs - getTime (fp_joinDate partner)))
                     (7 * 24 * 60 * 60 * 1000))
      in max 1 (fdiv ar (fdiv ar (fp_totalReferrals partner) weeksActive) 7))"

definition recentReferrals :: "Date \<Rightarrow> Referral list \<Rightarrow> Referral list" where
  "recentReferrals now referrals =
     filter (\<lambda>r. getTime now - getTime (ref_createdAt r) < 24 * 60 * 60 * 1000) referrals"

text \<open>The size of the set of truthy IP addresses of the recent referrals.\<close>

definition uniqueIPs :: "Referral list \<Rightarrow> nat" where
  "uniqueIPs recent =
     length (remdups (filter (\<lambda>ip. ip \<noteq> [])
                        (concat (map (\<lambda>r. case ref_ipAddress r of None \<Rightarrow> [] | Some ip \<Rightarrow> [ip])
                                   recent))))"

definition detectReferralVelocityAnomalies ::
  "Arith \<Rightarrow> string \<Rightarrow> Date \<Rightarrow> int \<Rightarrow> FraudPartner \<Rightarrow> Referral list \<Rightarrow> FraudAlert list" where
  "detectReferralVelocityAnomalies ar alertId now nowMs partner referrals =
     (let recent = recentReferrals now referrals;
          dailyVelocity = of_nat (length recent);
          normalVelocity = calculateNormalReferralVelocity ar nowMs partner
      in if dailyVelocity > fmul ar normalVelocity 5
         then
           let evidence =
                 [\<lparr> ev_type = ''velocity_metric'',
                    ev_value = [(''current'', dailyVelocity), (''normal'', normalVelocity)],
                    ev_weight = lit_0_8, ev_timestamp = now \<rparr>]
                 @ (if of_nat (uniqueIPs recent) < fmul ar dailyVelocity lit_0_3
                    then [\<lparr> ev_type = ''ip_concentration'',
                            ev_value = [(''uniqueIPs'', of_nat (uniqueIPs recent)),
                                        (''totalReferrals'', dailyVelocity)],
                            ev_weight = lit_0_9, ev_timestamp = now \<rparr>]
                    else [])
           in [\<lparr> fa_id = alertId,
                  fa_partnerId = fp_id partner,
                  fa_alertType = ''referral_velocity'',
                  fa_severity =
                    (if dailyVelocity > fmul ar normalVelocity 10 then Critical else High),
                  fa_riskScore = min (fdiv ar (fdiv ar dailyVelocity normalVelocity) 10) 1,
                  fa_evidence = evidence,
                  fa_status = Open,
                  fa_createdAt = now,
                  fa_actions = [],
                  fa_velocityRatio = fdiv ar dailyVelocity normalVelocity,
                  fa_timeWindow = ''24h'' \<rparr>]
         else [])"

section \<open>Hierarchy manager (lib/engines/hierarchy-manager.ts)\<close>

subsection \<open>Partners and partial updates\<close>

text \<open>
  A \<open>Partner\<close> with the fields the modelled operations read or write. The remaining
  fields of the interface (\<open>userId\<close>, \<open>partnerCode\<close>, \<open>activationDate\<close>,
  \<open>quarterlyVolume\<close>, \<open>annualVolume\<close>, \<open>lastActivityDate\<close>, \<open>complianceScore\<close>,
  \<open>riskScore\<close>, \<open>created_at\<close>) are touched by none of them. \<open>metadata\<close> is an
  association list in insertion order.
\<close>

datatype PartnerStatus = Pending | Active | Inactive | Suspended | Terminated

record Partner =
  p_id :: string
  p_sponsorId :: "string option"
  p_sponsorPath :: string
  p_level :: int
  p_status :: PartnerStatus
  p_joinDate :: Date
  p_personalVolume :: rat
  p_teamVolume :: rat
  p_monthlyVolume :: rat
  p_directReferrals :: int
  p_totalDownline :: int
  p_activeDownline :: int
  p_metadata :: "(string \<times> string) list"
  p_updated_at :: Date

text \<open>
  \<open>Partial<Partner>\<close>: a field is \<open>None\<close> when its key is absent. \<open>sponsorId\<close> is itself
  optional, so \<open>Some None\<close> is the key present with value \<open>undefined\<close>. The \<open>id\<close> is
  never part of an update.
\<close>

record PartnerUpdate =
  u_sponsorId :: "string option option"
  u_sponsorPath :: "string option"
  u_level :: "int option"
  u_status :: "PartnerStatus option"
  u_joinDate :: "Date option"
  u_personalVolume :: "rat option"
  u_teamVolume :: "rat option"
  u_monthlyVolume :: "rat option"
  u_directReferrals :: "int option"
  u_totalDownline :: "int option"
  u_activeDownline :: "int option"
  u_metadata :: "(string \<times> string) list option"
  u_updated_at :: "Date option"

definition noUpdate :: PartnerUpdate where
  "noUpdate =
     \<lparr> u_sponsorId = None, u_sponsorPath = None, u_level = None, u_status = None,
       u_joinDate = None, u_personalVolume = None, u_teamVolume = None,
       u_monthlyVolume = None, u_directReferrals = None, u_totalDownline = None,
       u_activeDownline = None, u_metadata = None, u_updated_at = None \<rparr>"

text \<open>The object spread \<open>{ ...partner, ...updates }\<close>.\<close>

definition applyUpdate :: "Partner \<Rightarrow> PartnerUpdate \<Rightarrow> Partner" where
  "applyUpdate p u =
     \<lparr> p_id = p_id p,
       p_sponsorId = (case u_sponsorId u of None \<Rightarrow> p_sponsorId p | Some v \<Rightarrow> v),
       p_sponsorPath = (case u_sponsorPath u of None \<Rightarrow> p_sponsorPath p | Some v \<Rightarrow> v),
       p_level = (case u_level u of None \<Rightarrow> p_level p | Some v \<Rightarrow> v),
       p_status = (case u_status u of None \<Rightarrow> p_status p | Some v \<Rightarrow> v),
       p_joinDate = (case u_joinDate u of None \<Rightarrow> p_joinDate p | Some v \<Rightarrow> v),
       p_personalVolume =
         (case u_personalVolume u of None \<Rightarrow> p_personalVolume p | Some v \<Rightarrow> v),
       p_teamVolume = (case u_teamVolume u of None \<Rightarrow> p_teamVolume p | Some v \<Rightarrow> v),
       p_monthlyVolume = (case u_monthlyVolume u of None \<Rightarrow> p_monthlyVolume p | Some v \<Rightarrow> v),
       p_directReferrals =
         (case u_directReferrals u of None \<Rightarrow> p_directReferrals p | Some v \<Rightarrow> v),
       p_totalDownline = (case u_totalDownline u of None \<Rightarrow> p_totalDownline p | Some v \<Rightarrow> v),
       p_activeDownline =
         (case u_activeDownline u of None \<Rightarrow> p_activeDownline p | Some v \<Rightarrow> v),
       p_metadata = (case u_metadata u of None \<Rightarrow> p_metadata p | Some v \<Rightarrow> v),
       p_updated_at = (case u_updated_at u of None \<Rightarrow> p_updated_at p | Some v \<Rightarrow> v) \<rparr>"

subsection \<open>The partner store\<close>

text \<open>
  The bodies of \<open>getPartner\<close>, \<open>getAllPartners\<close>, \<open>getDirectDownline\<close> and
  \<open>updatePartner\<close> are stubs in the source (\<open>Method should be implemented with actual
  database calls\<close>); the partner store behind them is an external collaborator whose
  contract the spec gives in its section 6. The store is the list of its partners, in
  the order in which it lists them.
\<close>

type_synonym store = "Partner list"

text \<open>
  Modelled from the spec: the body of \<open>getPartner\<close> is missing; the store's \<open>get(id)\<close>
  yields the partner with that id, or not-found.
\<close>

definition getPartner :: "store \<Rightarrow> string \<Rightarrow> Partner option" where
  "getPartner s partnerId = find (\<lambda>p. p_id p = partnerId) s"

text \<open>
  Modelled from the spec: the body of \<open>getAllPartners\<close> is missing; the store's
  \<open>listAll()\<close> yields every partner.
\<close>

definition getAllPartners :: "store \<Rightarrow> Partner list" where
  "getAllPartners s = s"

text \<open>
  Modelled from the spec: the body of \<open>getDirectDownline\<close> is missing; the store's
  \<open>listDirectChildren(id)\<close> yields the partners whose sponsor is \<open>id\<close>.
\<close>

definition getDirectDownline :: "store \<Rightarrow> string \<Rightarrow> Partner list" where
  "getDirectDownline s partnerId = filter (\<lambda>p. p_sponsorId p = Some partnerId) s"

text \<open>
  Modelled from the spec: the body of \<open>updatePartner\<close> is missing; the store's
  \<open>update(id, partialFields)\<close> applies the partial fields to the partner \<open>id\<close> and
  leaves every other partner as it is.
\<close>

definition updatePartner :: "store \<Rightarrow> string \<Rightarrow> PartnerUpdate \<Rightarrow> store" where
  "updatePartner s partnerId updates =
     map (\<lambda>p. if p_id p = partnerId then applyUpdate p updates else p) s"

subsection \<open>Strings\<close>

text \<open>\<open>String.prototype.split\<close> on a one-character separator.\<close>

fun splitOn :: "char \<Rightarrow> string \<Rightarrow> string list" where
  "splitOn c [] = [[]]"
| "splitOn c (x # xs) =
     (if x = c then [] # splitOn c xs
      else (case splitOn c xs of [] \<Rightarrow> [[x]] | w # ws \<Rightarrow> (x # w) # ws))"

fun startsWith :: "string \<Rightarrow> string \<Rightarrow> bool" where
  "startsWith s [] = True"
| "startsWith [] (c # cs) = False"
| "startsWith (x # xs) (c # cs) = (x = c \<and> startsWith xs cs)"

text \<open>\<open>String.prototype.includes\<close>: a substring test.\<close>

fun includesStr :: "string \<Rightarrow> string \<Rightarrow> bool" where
  "includesStr [] sub = (sub = [])"
| "includesStr (x # xs) sub = (startsWith (x # xs) sub \<or> includesStr xs sub)"

text \<open>\<open>sponsorPath.split('/').filter(id => id.length > 0)\<close>\<close>

definition decodePath :: "string \<Rightarrow> string list" where
  "decodePath path = filter (\<lambda>i. i \<noteq> []) (splitOn CHR ''/'' path)"

subsection \<open>Read traversals\<close>

definition getUplineHierarchy :: "store \<Rightarrow> string \<Rightarrow> Partner list" where
  "getUplineHierarchy s partnerId =
     (case getPartner s partnerId of
        None \<Rightarrow> []
      | Some partner \<Rightarrow>
          if p_sponsorPath partner = [] then []
          else
            let sponsorIds = decodePath (p_sponsorPath partner);
                upline = concat (map (\<lambda>sponsorId. case getPartner s sponsorId of
                                                     None \<Rightarrow> [] | Some sponsor \<Rightarrow> [sponsor])
                                   sponsorIds)
            in rev upline)"

text \<open>
  The comparator sort is stable: by level, and by join time within a level. Its defaults
  are \<open>maxLevels = 5\<close> and \<open>activeOnly = true\<close>.
\<close>

definition getDownlineHierarchy :: "store \<Rightarrow> string \<Rightarrow> int \<Rightarrow> bool \<Rightarrow> Partner list" where
  "getDownlineHierarchy s partnerId maxLevels activeOnly =
     (case getPartner s partnerId of
        None \<Rightarrow> []
      | Some partner \<Rightarrow>
          let downline =
                filter (\<lambda>p. includesStr (p_sponsorPath p) partnerId \<and> p_id p \<noteq> partnerId
                             \<and> p_level p - p_level partner \<le> maxLevels
                             \<and> (if activeOnly then p_status p = Active else True))
                  (getAllPartners s)
          in sort_key p_level (sort_key (\<lambda>p. getTime (p_joinDate p)) downline))"

definition buildSponsorPath :: "store \<Rightarrow> string \<Rightarrow> string" where
  "buildSponsorPath s sponsorId =
     (case getPartner s sponsorId of
        None \<Rightarrow> []
      | Some sponsor \<Rightarrow>
          if p_sponsorPath sponsor \<noteq> [] then p_sponsorPath sponsor @ ''/'' @ sponsorId
          else sponsorId)"

subsection \<open>Volume propagation\<close>

text \<open>
  The walks up and down the sponsor graph need not end (a sponsor cycle keeps them going),
  so they are partial functions: \<open>None\<close> is a call that never returns.
\<close>

partial_function (option) propagateVolumeUpdate ::
  "Arith \<Rightarrow> store \<Rightarrow> string option \<Rightarrow> rat \<Rightarrow> store option" where
  "propagateVolumeUpdate ar s sponsorId volumeDelta =
     (if \<not> truthy_str sponsorId then Some s
      else case getPartner s (the sponsorId) of
             None \<Rightarrow> Some s
           | Some sponsor \<Rightarrow>
               propagateVolumeUpdate ar
                 (updatePartner s (the sponsorId)
                    (noUpdate\<lparr>u_teamVolume := Some (fadd ar (p_teamVolume sponsor) volumeDelta)\<rparr>))
                 (p_sponsorId sponsor) volumeDelta)"

text \<open>
  \<open>updatePartnerMetrics\<close> returns the merged record; the second component is the store
  after the call.
\<close>

definition updatePartnerMetrics ::
  "Arith \<Rightarrow> Date \<Rightarrow> store \<Rightarrow> string \<Rightarrow> PartnerUpdate \<Rightarrow> (error + Partner \<times> store) option" where
  "updatePartnerMetrics ar now s partnerId metrics =
     (case getPartner s partnerId of
        None \<Rightarrow> Some (Inl PartnerNotFound)
      | Some partner \<Rightarrow>
          let updatedPartner = (applyUpdate partner metrics)\<lparr>p_updated_at := now\<rparr> in
          (case u_teamVolume metrics of
             None \<Rightarrow> Some (Inr (updatedPartner, s))
           | Some teamVolume \<Rightarrow>
               if teamVolume \<noteq> p_teamVolume partner
               then
                 (case propagateVolumeUpdate ar s (p_sponsorId partner)
                         (fsub ar teamVolume (p_teamVolume partner)) of
                    None \<Rightarrow> None
                  | Some s' \<Rightarrow> Some (Inr (updatedPartner, s')))
               else Some (Inr (updatedPartner, s))))"

subsection \<open>Downline counters\<close>

partial_function (option) updateUplineTotalDownline ::
  "store \<Rightarrow> string \<Rightarrow> int \<Rightarrow> store option" where
  "updateUplineTotalDownline s sponsorId delta =
     (case getPartner s sponsorId of
        None \<Rightarrow> Some s
      | Some sponsor \<Rightarrow>
          let s1 = updatePartner s sponsorId
                     (noUpdate\<lparr>u_totalDownline := Some (max 0 (p_totalDownline sponsor + delta))\<rparr>)
          in if truthy_str (p_sponsorId sponsor)
             then updateUplineTotalDownline s1 (the (p_sponsorId sponsor)) delta
             else Some s1)"

declare updateUplineTotalDownline.simps [code]

definition updateSponsorDownlineCounts :: "store \<Rightarrow> string \<Rightarrow> int \<Rightarrow> store option" where
  "updateSponsorDownlineCounts s sponsorId delta =
     (case getPartner s sponsorId of
        None \<Rightarrow> Some s
      | Some sponsor \<Rightarrow>
          let s1 = updatePartner s sponsorId
                     (noUpdate\<lparr>u_directReferrals := Some (max 0 (p_directReferrals sponsor + delta)),
                               u_totalDownline := Some (max 0 (p_totalDownline sponsor + delta))\<rparr>)
          in if truthy_str (p_sponsorId sponsor)
             then updateUplineTotalDownline s1 (the (p_sponsorId sponsor)) delta
             else Some s1)"

subsection \<open>Rewriting the levels and paths of a downline\<close>

text \<open>
  \<open>updateDownlineLevelsAndPaths\<close> reads the direct downline once and, for each child in
  turn, rewrites the child and recurses into it. \<open>updateDownlineLoop\<close> is that loop over
  the ids of the children still to visit.
\<close>

partial_function (option) updateDownlineLoop ::
  "store \<Rightarrow> string list \<Rightarrow> int \<Rightarrow> string \<Rightarrow> store option" where
  "updateDownlineLoop s children newLevel newPath =
     (case children of
        [] \<Rightarrow> Some s
      | childId # rest \<Rightarrow>
          Option.bind
            (updateDownlineLoop
               (updatePartner s childId
                  (noUpdate\<lparr>u_level := Some (newLevel + 1),
                            u_sponsorPath := Some (newPath @ ''/'' @ childId)\<rparr>))
               (map p_id
                  (getDirectDownline
                     (updatePartner s childId
                        (noUpdate\<lparr>u_level := Some (newLevel + 1),
                                  u_sponsorPath := Some (newPath @ ''/'' @ childId)\<rparr>))
                     childId))
               (newLevel + 1) (newPath @ ''/'' @ childId))
            (\<lambda>s2. updateDownlineLoop s2 rest newLevel newPath))"

declare updateDownlineLoop.simps [code]

definition updateDownlineLevelsAndPaths ::
  "store \<Rightarrow> string \<Rightarrow> int \<Rightarrow> string \<Rightarrow> store option" where
  "updateDownlineLevelsAndPaths s partnerId newLevel newPath =
     updateDownlineLoop s (map p_id (getDirectDownline s partnerId)) newLevel newPath"

subsection \<open>movePartner and deactivatePartner\<close>

text \<open>Every failure of \<open>movePartner\<close> precedes its first write to the store.\<close>

definition movePartner ::
  "MLMSystemConfig \<Rightarrow> store \<Rightarrow> string \<Rightarrow> string \<Rightarrow> (error + store) option" where
  "movePartner cfg s partnerId newSponsorId =
     (case getPartner s partnerId of
        None \<Rightarrow> Some (Inl PartnerNotFound)
      | Some partner \<Rightarrow>
          (case getPartner s newSponsorId of
             None \<Rightarrow> Some (Inl NewSponsorNotFound)
           | Some newSponsor \<Rightarrow>
               if list_ex (\<lambda>p. p_id p = newSponsorId) (getDownlineHierarchy s partnerId 5 True)
               then Some (Inl SelfCycle)
               else
                 let oldSponsorId = p_sponsorId partner;
                     newLevel = p_level newSponsor + 1
                 in if newLevel > maxHierarchyLevels (cfg_partner cfg)
                    then Some (Inl DepthExceeded)
                    else
                      let newSponsorPath = buildSponsorPath s newSponsorId;
                          s1 = updatePartner s partnerId
                                 (noUpdate\<lparr>u_sponsorId := Some (Some newSponsorId),
                                           u_sponsorPath := Some newSponsorPath,
                                           u_level := Some newLevel\<rparr>)
                      in
                      (case (if truthy_str oldSponsorId
                             then updateSponsorDownlineCounts s1 (the oldSponsorId) (- 1)
                             else Some s1) of
                         None \<Rightarrow> None
                       | Some s2 \<Rightarrow>
                           (case updateSponsorDownlineCounts s2 newSponsorId 1 of
                              None \<Rightarrow> None
                            | Some s3 \<Rightarrow>
                                (case updateDownlineLevelsAndPaths s3 partnerId newLevel
                                        (newSponsorPath @ ''/'' @ partnerId) of
                                   None \<Rightarrow> None
                                 | Some s4 \<Rightarrow> Some (Inr s4))))))"

text \<open>
  The loop of \<open>deactivatePartner\<close> over the ids of the direct downline. A failure of
  \<open>movePartner\<close> ends the call; the store then keeps the writes made so far, so the
  result pairs the failure, if any, with the store.
\<close>

fun redistributeLoop ::
  "MLMSystemConfig \<Rightarrow> Partner \<Rightarrow> string list \<Rightarrow> store \<Rightarrow> (error option \<times> store) option" where
  "redistributeLoop cfg partner [] s = Some (None, s)"
| "redistributeLoop cfg partner (childId # rest) s =
     (if truthy_str (p_sponsorId partner)
      then (case movePartner cfg s childId (the (p_sponsorId partner)) of
              None \<Rightarrow> None
            | Some (Inl e) \<Rightarrow> Some (Some e, s)
            | Some (Inr s') \<Rightarrow> redistributeLoop cfg partner rest s')
      else redistributeLoop cfg partner rest
             (updatePartner s childId
                (noUpdate\<lparr>u_sponsorId := Some None, u_sponsorPath := Some [],
                          u_level := Some 1\<rparr>)))"

text \<open>
  Object spread of the metadata with one more key: an existing key keeps its place.
\<close>

fun putKey :: "string \<Rightarrow> string \<Rightarrow> (string \<times> string) list \<Rightarrow> (string \<times> string) list" where
  "putKey k v [] = [(k, v)]"
| "putKey k v ((k', v') # kvs) = (if k' = k then (k, v) # kvs else (k', v') # putKey k v kvs)"

text \<open>\<open>nowIso\<close> is \<open>new Date().toISOString()\<close>.\<close>

definition deactivatePartner ::
  "MLMSystemConfig \<Rightarrow> string \<Rightarrow> store \<Rightarrow> string \<Rightarrow> string \<Rightarrow> bool
     \<Rightarrow> (error option \<times> store) option" where
  "deactivatePartner cfg nowIso s partnerId reason redistributeDownline =
     (case getPartner s partnerId of
        None \<Rightarrow> Some (Some PartnerNotFound, s)
      | Some partner \<Rightarrow>
          let s1 = updatePartner s partnerId
                     (noUpdate\<lparr>u_status := Some Inactive,
                               u_metadata := Some (putKey ''deactivationDate'' nowIso
                                                    (putKey ''deactivationReason'' reason
                                                       (p_metadata partner)))\<rparr>)
          in
          (case (if redistributeDownline
                 then redistributeLoop cfg partner (map p_id (getDirectDownline s1 partnerId)) s1
                 else Some (None, s1)) of
             None \<Rightarrow> None
           | Some (Some e, s2) \<Rightarrow> Some (Some e, s2)
           | Some (None, s2) \<Rightarrow>
               if truthy_str (p_sponsorId partner)
               then (case updateSponsorDownlineCounts s2 (the (p_sponsorId partner)) (- 1) of
                       None \<Rightarrow> None
                     | Some s3 \<Rightarrow> Some (None, s3))
               else Some (None, s2)))"

subsection \<open>The invariants of the hierarchy\<close>

text \<open>
  Following the spec's words (section 3): for every partner, the element count of the
  path is the level minus 1, the partner's own id is not in its path, a partner without
  sponsor has the empty path, and a partner with a sponsor has the sponsor's level plus 1
  and the sponsor's path followed by the sponsor's id (so the path is the ancestor chain
  from the root to the parent).
\<close>

definition hierarchyInvariant :: "store \<Rightarrow> bool" where
  "hierarchyInvariant s =
     list_all
       (\<lambda>p. int (length (decodePath (p_sponsorPath p))) = p_level p - 1
            \<and> p_id p \<notin> set (decodePath (p_sponsorPath p))
            \<and> (case p_sponsorId p of
                 None \<Rightarrow> decodePath (p_sponsorPath p) = []
               | Some sponsorId \<Rightarrow>
                   (case getPartner s sponsorId of
                      None \<Rightarrow> False
                    | Some sponsor \<Rightarrow>
                        p_level p = p_level sponsor + 1
                        \<and> decodePath (p_sponsorPath p)
                            = decodePath (p_sponsorPath sponsor) @ [sponsorId])))
       s"

text \<open>
  \<open>onChain s start x\<close>: the walk up the sponsor chain that starts at the optional id
  \<open>start\<close> visits the partner \<open>x\<close>. \<open>isAncestor s a c\<close>: \<open>a\<close> is visited by the walk that
  starts at the sponsor of \<open>c\<close>.
\<close>

inductive onChain :: "store \<Rightarrow> string option \<Rightarrow> string \<Rightarrow> bool" for s :: store where
  here: "truthy_str start \<Longrightarrow> getPartner s (the start) = Some sponsor
           \<Longrightarrow> onChain s start (the start)"
| up: "truthy_str start \<Longrightarrow> getPartner s (the start) = Some sponsor
           \<Longrightarrow> onChain s (p_sponsorId sponsor) x \<Longrightarrow> onChain s start x"

definition isAncestor :: "store \<Rightarrow> string \<Rightarrow> string \<Rightarrow> bool" where
  "isAncestor s a c =
     (case getPartner s c of None \<Rightarrow> False | Some p \<Rightarrow> onChain s (p_sponsorId p) a)"

text \<open>
  What \<open>validateHierarchy\<close> checks of the sponsor relation: a sponsor that resolves has a
  smaller level than the partner.
\<close>

definition sponsorLevelsOrdered :: "store \<Rightarrow> bool" where
  "sponsorLevelsOrdered s =
     list_all
       (\<lambda>p. case p_sponsorId p of
              None \<Rightarrow> True
            | Some sponsorId \<Rightarrow>
                (case getPartner s sponsorId of
                   None \<Rightarrow> True
                 | Some sponsor \<Rightarrow> p_level sponsor < p_level p))
       s"

text \<open>
  \<open>twoCycleAt s a\<close>: in the store \<open>s\<close> the partner \<open>a\<close> is sponsored by a partner that
  \<open>a\<close> itself sponsors.
\<close>

definition twoCycleAt :: "store \<Rightarrow> string \<Rightarrow> bool" where
  "twoCycleAt s a =
     (case getPartner s a of
        None \<Rightarrow> False
      | Some pa \<Rightarrow>
          (case p_sponsorId pa of
             None \<Rightarrow> False
           | Some b \<Rightarrow>
               b \<noteq> []
               \<and> (case getPartner s b of
                    None \<Rightarrow> False
                  | Some pb \<Rightarrow> p_sponsorId pb = Some a \<and> a \<noteq> [])))"

section \<open>Concrete inputs\<close>

subsection \<open>Commission engine\<close>

definition ex_date :: Date where
  "ex_date = \<lparr> getTime = 1736035200000, getFullYear = 2025, getMonth = 0 \<rparr>"

definition ex_later :: Date where
  "ex_later = \<lparr> getTime = 1736035200001, getFullYear = 2025, getMonth = 0 \<rparr>"

definition ex_noCriteria :: QualificationCriteria where
  "ex_noCriteria = \<lparr> qc_personalVolume = None, qc_teamVolume = None, qc_activeDownline = None,
                      qc_timeInBusiness = None, qc_certificationRequired = None \<rparr>"

definition ex_tier :: "string \<Rightarrow> rat \<Rightarrow> CommissionTier" where
  "ex_tier name rate =
     \<lparr> tier_level = 1, tier_name = name, tier_qualificationCriteria = ex_noCriteria,
       tier_commissionRate = rate, tier_commissionType = percentage,
       tier_minimumVolume = None, tier_maximumEarnings = None \<rparr>"

definition ex_bonus :: "rat \<Rightarrow> BonusRule" where
  "ex_bonus v =
     \<lparr> bonus_id = ''b1'', bonus_name = ''volume bonus'',
       bonus_eligibilityCriteria = ex_noCriteria,
       bonus_trigger = \<lparr> trg_metric = ''monthly_volume'', trg_operator = ''greater_than'',
                         trg_value = Single 0 \<rparr>,
       bonus_reward = \<lparr> rw_type = ''fixed_amount'', rw_value = v, rw_currency = None \<rparr> \<rparr>"

definition ex_config :: "CommissionTier list \<Rightarrow> BonusRule list \<Rightarrow> MLMSystemConfig" where
  "ex_config ts bs =
     \<lparr> cfg_partner = \<lparr> maxHierarchyLevels = 5, autoActivation = True \<rparr>,
       cfg_commission = \<lparr> tiers = ts, cfg_bonuses = bs, caps = None,
                          residualEnabled = True, residualPeriod = 12 \<rparr>,
       cfg_products = [\<lparr> prod_id = ''plan'', prod_commissionEligible = True,
                          prod_commissionRates = None \<rparr>] \<rparr>"

definition ex_node :: PartnerHierarchyNode where
  "ex_node =
     \<lparr> n_id = ''sponsor'', n_sponsorId = None, n_level = 1, n_personalVolume = 100,
       n_teamVolume = 100, n_monthlyVolume = 100, n_activeDownline = 0,
       n_joinDate = ex_date, n_currentMonthEarnings = None,
       n_consecutiveActiveMonths = None, n_certifications = None \<rparr>"

definition ex_transaction :: "string \<Rightarrow> rat \<Rightarrow> Transaction" where
  "ex_transaction product amount =
     \<lparr> tx_id = ''tx1'', tx_partnerId = ''buyer'', tx_customerEmail = ''c@example.org'',
       tx_amount = amount, tx_currency = ''GBP'', tx_productId = product,
       tx_timestamp = ex_date \<rparr>"

definition ex_subscription :: Subscription where
  "ex_subscription =
     \<lparr> sub_id = ''s1'', sub_partnerId = ''buyer'', sub_customerEmail = ''c@example.org'',
       sub_productId = ''plan'', sub_monthlyAmount = 1000, sub_currency = ''GBP'',
       sub_startDate = ex_date \<rparr>"

subsection \<open>Fraud engine\<close>

text \<open>A partner who joined exactly ten weeks before \<open>ex_date\<close>.\<close>

definition ex_fraudPartner :: "rat \<Rightarrow> FraudPartner" where
  "ex_fraudPartner totalReferrals =
     \<lparr> fp_id = ''p1'',
       fp_joinDate = \<lparr> getTime = 1729987200000, getFullYear = 2024, getMonth = 9 \<rparr>,
       fp_totalReferrals = totalReferrals \<rparr>"

text \<open>A referral made one hour before \<open>ex_date\<close>.\<close>

definition ex_referral :: Referral where
  "ex_referral =
     \<lparr> ref_createdAt = \<lparr> getTime = 1736031600000, getFullYear = 2025, getMonth = 0 \<rparr>,
       ref_ipAddress = None \<rparr>"

subsection \<open>Hierarchy manager\<close>

definition ex_partner ::
  "string \<Rightarrow> string option \<Rightarrow> string \<Rightarrow> int \<Rightarrow> PartnerStatus \<Rightarrow> rat \<Rightarrow> Partner" where
  "ex_partner i sponsor path lvl st tv =
     \<lparr> p_id = i, p_sponsorId = sponsor, p_sponsorPath = path, p_level = lvl, p_status = st,
       p_joinDate = ex_date, p_personalVolume = 0, p_teamVolume = tv, p_monthlyVolume = 0,
       p_directReferrals = 0, p_totalDownline = 0, p_activeDownline = 0, p_metadata = [],
       p_updated_at = ex_date \<rparr>"

text \<open>A root \<open>r\<close>, its child \<open>m\<close> and its grandchild \<open>c\<close>, all active.\<close>

definition ex_chain :: store where
  "ex_chain =
     [ex_partner ''r'' None [] 1 Active 30,
      ex_partner ''m'' (Some ''r'') ''r'' 2 Active 20,
      ex_partner ''c'' (Some ''m'') ''r/m'' 3 Active 10]"

text \<open>A root \<open>p\<close> with an inactive child \<open>s\<close>.\<close>

definition ex_inactiveChild :: store where
  "ex_inactiveChild =
     [ex_partner ''p'' None [] 1 Active 0,
      ex_partner ''s'' (Some ''p'') ''p'' 2 Inactive 0]"

section \<open>Properties of the commission engine\<close>

subsection \<open>Evaluation helpers\<close>

lemma floor_numeral_div: "\<lfloor>(numeral a :: rat) / numeral b\<rfloor> = numeral a div numeral b"
  using floor_divide_of_int_eq [of "numeral a" "numeral b", where ?'a = rat] by simp

lemma floor_one_div: "\<lfloor>(1 :: rat) / numeral b\<rfloor> = 1 div numeral b"
  using floor_divide_of_int_eq [of 1 "numeral b", where ?'a = rat] by simp

lemmas ex_defs = ex_date_def ex_later_def ex_noCriteria_def ex_tier_def ex_bonus_def
  ex_config_def ex_node_def ex_transaction_def ex_subscription_def

lemmas engine_defs = calculateCommissions_def findApplicableTier_def applicableTiers_def
  isPartnerQualified_def betterTier_def calculateTierCommission_def rateFor_def applyCaps_def
  calculateBonuses_def bonusFor_def isBonusTriggerMet_def bonusAmountOf_def round2_def
  truthy_num_def truthy_str_def calculateMonthsInBusiness_def

subsection \<open>Tier selection\<close>

lemma foldl_betterTier_first_max:
  "qs \<noteq> [] \<Longrightarrow>
     \<exists>i<length qs. foldl betterTier None qs = Some (qs ! i)
        \<and> (\<forall>j<length qs. tier_commissionRate (qs ! j) \<le> tier_commissionRate (qs ! i))
        \<and> (\<forall>j<i. tier_commissionRate (qs ! j) < tier_commissionRate (qs ! i))"
proof (induction qs rule: rev_induct)
  case Nil
  then show ?case by simp
next
  case (snoc x xs)
  show ?case
  proof (cases "xs = []")
    case True
    then show ?thesis by (simp add: betterTier_def)
  next
    case False
    from snoc.IH [OF False] obtain i where i: "i < length xs"
      and r: "foldl betterTier None xs = Some (xs ! i)"
      and mx: "\<forall>j<length xs. tier_commissionRate (xs ! j) \<le> tier_commissionRate (xs ! i)"
      and fst: "\<forall>j<i. tier_commissionRate (xs ! j) < tier_commissionRate (xs ! i)"
      by blast
    show ?thesis
    proof (cases "tier_commissionRate x > tier_commissionRate (xs ! i)")
      case True
      have "foldl betterTier None (xs @ [x]) = Some ((xs @ [x]) ! length xs)"
        using r True by (simp add: betterTier_def)
      moreover have "\<forall>j<length (xs @ [x]). tier_commissionRate ((xs @ [x]) ! j)
                       \<le> tier_commissionRate ((xs @ [x]) ! length xs)"
        using mx True by (auto simp: nth_append less_Suc_eq intro: order_trans less_imp_le)
      moreover have "\<forall>j<length xs. tier_commissionRate ((xs @ [x]) ! j)
                       < tier_commissionRate ((xs @ [x]) ! length xs)"
        using mx True by (auto simp: nth_append intro: le_less_trans)
      ultimately show ?thesis by (intro exI [of _ "length xs"]) simp
    next
      case False
      have "foldl betterTier None (xs @ [x]) = Some ((xs @ [x]) ! i)"
        using r False i by (simp add: betterTier_def nth_append)
      moreover have "\<forall>j<length (xs @ [x]). tier_commissionRate ((xs @ [x]) ! j)
                       \<le> tier_commissionRate ((xs @ [x]) ! i)"
        using mx False i by (auto simp: nth_append less_Suc_eq)
      moreover have "\<forall>j<i. tier_commissionRate ((xs @ [x]) ! j)
                       < tier_commissionRate ((xs @ [x]) ! i)"
        using fst i by (auto simp: nth_append)
      ultimately show ?thesis using i by (intro exI [of _ i]) simp
    qed
  qed
qed

text \<open>
  Claim C10. Let \<open>qs\<close> be the configured tiers, in configured order, whose level is the
  current level and whose qualification predicate the partner satisfies. If \<open>qs\<close> is empty,
  \<open>findApplicableTier\<close> returns nothing. Otherwise it returns the tier at some position \<open>i\<close>
  of \<open>qs\<close> such that no tier of \<open>qs\<close> has a greater rate and every tier before position
  \<open>i\<close> has a strictly smaller rate: the earliest tier among those of maximal rate.
\<close>

theorem findApplicableTier_first_of_highest_rate:
  fixes cfg now partner lvl
  defines "qs \<equiv> filter (\<lambda>tier. tier_level tier = lvl \<and> isPartnerQualified now partner tier)
                   (tiers (cfg_commission cfg))"
  shows "(qs = [] \<longrightarrow> findApplicableTier cfg now partner lvl = None)
       \<and> (qs \<noteq> [] \<longrightarrow>
            (\<exists>i<length qs. findApplicableTier cfg now partner lvl = Some (qs ! i)
               \<and> (\<forall>j<length qs. tier_commissionRate (qs ! j) \<le> tier_commissionRate (qs ! i))
               \<and> (\<forall>j<i. tier_commissionRate (qs ! j) < tier_commissionRate (qs ! i))))"
  using foldl_betterTier_first_max [of qs]
  by (simp add: findApplicableTier_def applicableTiers_def qs_def)

text \<open>
  Three qualifying tiers of level 1 with rates 1/8, 1/4 and 1/4: the theorem leaves only
  the second one as the result.
\<close>

theorem findApplicableTier_first_of_highest_rate_witness:
  "filter (\<lambda>tier. tier_level tier = 1 \<and> isPartnerQualified ex_date ex_node tier)
       (tiers (cfg_commission
          (ex_config [ex_tier ''A'' (1/8), ex_tier ''B'' (1/4), ex_tier ''C'' (1/4)] [])))
     = [ex_tier ''A'' (1/8), ex_tier ''B'' (1/4), ex_tier ''C'' (1/4)]
   \<and> findApplicableTier
         (ex_config [ex_tier ''A'' (1/8), ex_tier ''B'' (1/4), ex_tier ''C'' (1/4)] [])
         ex_date ex_node 1
       = Some (ex_tier ''B'' (1/4))"
proof -
  let ?ts = "[ex_tier ''A'' (1/8), ex_tier ''B'' (1/4), ex_tier ''C'' (1/4)]"
  let ?cfg = "ex_config ?ts []"
  have qs: "filter (\<lambda>tier. tier_level tier = 1 \<and> isPartnerQualified ex_date ex_node tier)
              (tiers (cfg_commission ?cfg)) = ?ts"
    by (simp add: ex_defs isPartnerQualified_def truthy_num_def)
  have ne: "?ts \<noteq> []" by simp
  from findApplicableTier_first_of_highest_rate
         [where cfg = ?cfg and now = ex_date and partner = ex_node and lvl = 1, unfolded qs] ne
  obtain i where i: "i < length ?ts"
    and r: "findApplicableTier ?cfg ex_date ex_node 1 = Some (?ts ! i)"
    and mx: "\<forall>j<length ?ts. tier_commissionRate (?ts ! j) \<le> tier_commissionRate (?ts ! i)"
    and fst: "\<forall>j<i. tier_commissionRate (?ts ! j) < tier_commissionRate (?ts ! i)"
    by blast
  from i have "i = 0 \<or> i = 1 \<or> i = 2" by (simp add: less_Suc_eq numeral_3_eq_3) arith
  moreover have "i \<noteq> 0"
  proof
    assume "i = 0"
    with mx [rule_format, of 1] show False by (simp add: ex_tier_def)
  qed
  moreover have "i \<noteq> 2"
  proof
    assume "i = 2"
    with fst [rule_format, of 1] show False by (simp add: ex_tier_def)
  qed
  ultimately have "i = 1" by blast
  with r qs show ?thesis by simp
qed

subsection \<open>Failure and zero-value distributions\<close>

text \<open>
  Claim C5. \<open>calculateCommissions\<close> fails exactly when the transaction's amount is at
  most 0, and the failure is \<open>InvalidAmount\<close>. For a positive amount whose product id is
  not in the configuration, or is there but not commission-eligible, it returns the
  distribution with total 0 and no commissions and no bonuses.
\<close>

theorem calculateCommissions_fails_iff:
  "(isl (calculateCommissions cfg now transaction partnerHierarchy)
      \<longleftrightarrow> tx_amount transaction \<le> 0)
   \<and> (tx_amount transaction \<le> 0 \<longrightarrow>
        calculateCommissions cfg now transaction partnerHierarchy = Inl InvalidAmount)
   \<and> (0 < tx_amount transaction
        \<and> (find (\<lambda>p. prod_id p = tx_productId transaction) (cfg_products cfg) = None
           \<or> (\<exists>product. find (\<lambda>p. prod_id p = tx_productId transaction) (cfg_products cfg)
                 = Some product \<and> \<not> prod_commissionEligible product))
      \<longrightarrow> calculateCommissions cfg now transaction partnerHierarchy
            = Inr \<lparr> transactionId = tx_id transaction, totalCommissionPaid = 0,
                    commissions = [], bonuses = [], processingTimestamp = now \<rparr>)"
  by (auto simp: calculateCommissions_def split: option.splits prod.splits)

theorem calculateCommissions_fails_iff_witness:
  "calculateCommissions (ex_config [ex_tier ''t'' (1/2)] []) ex_date
       (ex_transaction ''plan'' 0) [ex_node] = Inl InvalidAmount
   \<and> calculateCommissions (ex_config [ex_tier ''t'' (1/2)] []) ex_date
       (ex_transaction ''unknown'' 1) [ex_node]
     = Inr \<lparr> transactionId = ''tx1'', totalCommissionPaid = 0,
             commissions = [], bonuses = [], processingTimestamp = ex_date \<rparr>"
  using calculateCommissions_fails_iff
          [of "ex_config [ex_tier ''t'' (1/2)] []" ex_date "ex_transaction ''plan'' 0" "[ex_node]"]
        calculateCommissions_fails_iff
          [of "ex_config [ex_tier ''t'' (1/2)] []" ex_date "ex_transaction ''unknown'' 1" "[ex_node]"]
  by (simp add: ex_transaction_def ex_config_def)

subsection \<open>Totals\<close>

lemma foldl_add_sum_list:
  "foldl (\<lambda>acc x. acc + f x) z xs = z + sum_list (map f xs)"
  for z :: rat
  by (induction xs arbitrary: z) (simp_all add: algebra_simps)

lemma levelLoop_total:
  "levelLoop cfg now tx product lvl up (cs, bs, t) = (cs', bs', t') \<Longrightarrow>
   t = sum_list (map cr_commissionAmount cs) + sum_list (map br_amount bs) \<Longrightarrow>
   t' = sum_list (map cr_commissionAmount cs') + sum_list (map br_amount bs')"
proof (induction up arbitrary: lvl cs bs t)
  case Nil
  then show ?case by auto
next
  case (Cons partner rest)
  from Cons.prems show ?case
    by (auto simp: foldl_add_sum_list Let_def split: option.splits if_splits
        dest!: Cons.IH)
qed

text \<open>
  What \<open>calculateCommissions\<close> returns passes the engine's own consistency check: its
  total is the sum of its commission and bonus amounts.
\<close>

lemma calculateCommissions_consistent:
  "calculateCommissions cfg now tx up = Inr d \<Longrightarrow> validateCommissionDistribution d"
proof -
  assume r: "calculateCommissions cfg now tx up = Inr d"
  have "totalCommissionPaid d
          = sum_list (map cr_commissionAmount (commissions d))
            + sum_list (map br_amount (bonuses d))"
    using r
    by (auto simp: calculateCommissions_def split: if_splits option.splits prod.splits
        dest!: levelLoop_total)
  then show ?thesis
    by (simp add: validateCommissionDistribution_def foldl_add_sum_list)
qed

text \<open>
  Claim C1. The claim holds for \<open>calculateCommissions\<close> (lemma above) and fails for
  \<open>calculateResidualCommissions\<close>: the residual path halves the commission amounts and
  recomputes the total from the commissions alone, while the bonuses stay in the
  distribution at full value. With a tier of rate 1/2, a fixed bonus of 10 and a
  subscription of 1000 a month, the residual distribution has commissions [250], bonuses
  [10] and total 250, and \<open>validateCommissionDistribution\<close> rejects it.
\<close>

theorem residual_total_omits_bonuses:
  "map_sum id
     (map (\<lambda>d. (map cr_commissionAmount (commissions d), map br_amount (bonuses d),
                 totalCommissionPaid d, validateCommissionDistribution d)))
     (calculateResidualCommissions (ex_config [ex_tier ''t'' (1/2)] [ex_bonus 10]) ex_date
        [ex_subscription] [ex_node])
   = Inr [([250], [10], 250, False)]"
  by (simp add: ex_defs engine_defs calculateResidualCommissions_def residualDistribution_def
      validateCommissionDistribution_def floor_numeral_div floor_one_div)

subsection \<open>Positive amounts\<close>

lemma levelLoop_commissions_positive:
  "levelLoop cfg now tx product lvl up (cs, bs, t) = (cs', bs', t') \<Longrightarrow>
   list_all (\<lambda>c. 0 < cr_commissionAmount c) cs \<Longrightarrow>
   list_all (\<lambda>c. 0 < cr_commissionAmount c) cs'"
proof (induction up arbitrary: lvl cs bs t)
  case Nil
  then show ?case by simp
next
  case (Cons partner rest)
  from Cons.prems show ?case
    by (auto simp: Let_def split: option.splits if_splits dest!: Cons.IH)
qed

text \<open>Every commission entry of a returned distribution is strictly positive.\<close>

lemma calculateCommissions_commissions_positive:
  "calculateCommissions cfg now tx up = Inr d \<Longrightarrow>
     list_all (\<lambda>c. 0 < cr_commissionAmount c) (commissions d)"
  by (auto simp: calculateCommissions_def split: if_splits option.splits prod.splits
      dest!: levelLoop_commissions_positive)

text \<open>
  Claim C9. The commission half of the claim holds (lemma above). The bonus half fails:
  \<open>calculateBonuses\<close> tests \<open>bonusAmount > 0\<close> before rounding and emits the rounded
  amount, so a positive bonus below half a minor unit is emitted with amount 0. With a
  fixed bonus of 1/256 the returned distribution holds one bonus, of amount 0.
\<close>

theorem bonus_rounded_to_zero_emitted:
  "(case calculateCommissions (ex_config [ex_tier ''t'' (1/2)] [ex_bonus (1/256)]) ex_date
           (ex_transaction ''plan'' 1000) [ex_node] of
      Inl e \<Rightarrow> ([], [])
    | Inr d \<Rightarrow> (map cr_commissionAmount (commissions d), map br_amount (bonuses d)))
   = ([500], [0])"
  by (simp add: ex_defs engine_defs floor_numeral_div floor_one_div)

subsection \<open>Dependence on the clock\<close>

lemma months_same:
  "getFullYear now1 = getFullYear now2 \<Longrightarrow> getMonth now1 = getMonth now2 \<Longrightarrow>
     calculateMonthsInBusiness now1 d = calculateMonthsInBusiness now2 d"
  by (simp add: calculateMonthsInBusiness_def)

lemma isPartnerQualified_same_month:
  "getFullYear now1 = getFullYear now2 \<Longrightarrow> getMonth now1 = getMonth now2 \<Longrightarrow>
     isPartnerQualified now1 partner tier = isPartnerQualified now2 partner tier"
  by (simp add: isPartnerQualified_def months_same [of now1 now2])

lemma findApplicableTier_same_month:
  "getFullYear now1 = getFullYear now2 \<Longrightarrow> getMonth now1 = getMonth now2 \<Longrightarrow>
     findApplicableTier cfg now1 partner lvl = findApplicableTier cfg now2 partner lvl"
  by (simp add: findApplicableTier_def applicableTiers_def
      isPartnerQualified_same_month [of now1 now2])

lemma bonusFor_same_month:
  "getFullYear now1 = getFullYear now2 \<Longrightarrow> getMonth now1 = getMonth now2 \<Longrightarrow>
     bonusFor now1 partner tx tier = bonusFor now2 partner tx tier"
  by (rule ext) (simp add: bonusFor_def isPartnerQualified_same_month [of now1 now2])

lemma calculateBonuses_same_month:
  "getFullYear now1 = getFullYear now2 \<Longrightarrow> getMonth now1 = getMonth now2 \<Longrightarrow>
     calculateBonuses cfg now1 partner tx tier = calculateBonuses cfg now2 partner tx tier"
  by (simp add: calculateBonuses_def bonusFor_same_month [of now1 now2])

lemma levelLoop_same_month:
  "getFullYear now1 = getFullYear now2 \<Longrightarrow> getMonth now1 = getMonth now2 \<Longrightarrow>
     levelLoop cfg now1 tx product lvl up acc = levelLoop cfg now2 tx product lvl up acc"
proof (induction up arbitrary: lvl acc)
  case Nil
  then show ?case by simp
next
  case (Cons partner rest)
  obtain cs bs t where acc: "acc = (cs, bs, t)" by (cases acc) auto
  show ?case
    unfolding acc
    by (simp add: findApplicableTier_same_month [OF Cons.prems]
        calculateBonuses_same_month [OF Cons.prems] Cons.IH [OF Cons.prems]
        split: option.splits)
qed

text \<open>
  Claim C6, as stated, fails: \<open>processingTimestamp\<close> is the clock reading of the call, so
  two calls on the same transaction, upline and rule-set at different instants return
  different distributions.
\<close>

theorem calculateCommissions_timestamp_differs:
  "calculateCommissions (ex_config [] []) ex_date (ex_transaction ''unknown'' 1) []
   \<noteq> calculateCommissions (ex_config [] []) ex_later (ex_transaction ''unknown'' 1) []"
  by (simp add: ex_defs engine_defs)

text \<open>
  Claim C6, amended. Two calls with the same transaction, upline and rule-set whose
  clock readings lie in the same calendar month (same \<open>getFullYear\<close> and \<open>getMonth\<close>)
  fail alike or return distributions equal in every field except
  \<open>processingTimestamp\<close>, which is each call's own clock reading.
\<close>

theorem calculateCommissions_same_month:
  assumes "getFullYear now1 = getFullYear now2" and "getMonth now1 = getMonth now2"
  shows "calculateCommissions cfg now2 transaction partnerHierarchy
         = map_sum id (\<lambda>d. d\<lparr>processingTimestamp := now2\<rparr>)
             (calculateCommissions cfg now1 transaction partnerHierarchy)"
  by (simp add: calculateCommissions_def levelLoop_same_month [OF assms]
      split: option.splits prod.splits)

theorem calculateCommissions_same_month_witness:
  "getFullYear ex_date = getFullYear ex_later \<and> getMonth ex_date = getMonth ex_later
   \<and> ex_date \<noteq> ex_later
   \<and> calculateCommissions (ex_config [ex_tier ''t'' (1/2)] [ex_bonus 10]) ex_later
         (ex_transaction ''plan'' 1000) [ex_node]
       = map_sum id (\<lambda>d. d\<lparr>processingTimestamp := ex_later\<rparr>)
           (calculateCommissions (ex_config [ex_tier ''t'' (1/2)] [ex_bonus 10]) ex_date
              (ex_transaction ''plan'' 1000) [ex_node])"
proof -
  have y: "getFullYear ex_date = getFullYear ex_later"
    and m: "getMonth ex_date = getMonth ex_later"
    and ne: "ex_date \<noteq> ex_later"
    by (simp_all add: ex_date_def ex_later_def)
  from calculateCommissions_same_month [OF y m] y m ne show ?thesis by blast
qed

section \<open>Properties of the referral-velocity detector\<close>

lemmas fraud_ex_defs = ex_fraudPartner_def ex_referral_def ex_date_def

lemma exactArith_ops:
  "fmul exactArith x y = x * y" "fdiv exactArith x y = x / y"
  "fadd exactArith x y = x + y" "fsub exactArith x y = x - y"
  by (simp_all add: exactArith_def)

lemma ex_recent: "recentReferrals ex_date (replicate n ex_referral) = replicate n ex_referral"
  by (simp add: recentReferrals_def fraud_ex_defs)

lemma ex_normal_50:
  "calculateNormalReferralVelocity exactArith 1736035200000 (ex_fraudPartner 50) = 1"
  by (simp add: calculateNormalReferralVelocity_def exactArith_ops fraud_ex_defs)

lemma ex_normal_70:
  "calculateNormalReferralVelocity exactArith 1736035200000 (ex_fraudPartner 70) = 1"
  by (simp add: calculateNormalReferralVelocity_def exactArith_ops fraud_ex_defs)

text \<open>
  Claim C7, as stated, fails twice. The comparison is strict: a partner whose historical
  average is exactly one referral a day (70 referrals in 10 weeks) and who makes 5
  referrals in 24 hours has reached 5 times the average, and no alert is emitted. And the
  average is never taken below 1: for 50 referrals in 10 weeks (5 a week) and 47
  referrals in 24 hours the velocity ratio of the alert is 47, not 66. In the first case
  every quotient and product is exact in doubles (10 weeks, 7, 1, 5); in the second the
  quotient 5/7 is rounded and stays below 1, so the normal velocity is 1 all the same.
\<close>

theorem referral_velocity_not_at_least_5_times:
  "(5::rat) \<ge> 5 * (70 / 10 / 7)
   \<and> detectReferralVelocityAnomalies exactArith ''a1'' ex_date 1736035200000
         (ex_fraudPartner 70) (replicate 5 ex_referral) = []
   \<and> map fa_velocityRatio
         (detectReferralVelocityAnomalies exactArith ''a1'' ex_date 1736035200000
            (ex_fraudPartner 50) (replicate 47 ex_referral)) = [47]"
  by (simp add: detectReferralVelocityAnomalies_def ex_recent ex_normal_50 ex_normal_70 Let_def
      exactArith_ops)

text \<open>
  Claim C7, amended. Whatever the rounding of the double operations: let \<open>daily\<close> be the
  number of referrals created less than 24 hours before the clock reading and \<open>normal\<close>
  the normal velocity as the code computes it, the maximum of 1 and the computed
  quotient of the total referrals by the weeks active by 7, the weeks active being the
  maximum of 1 and the computed quotient of the time since joining by a week. The
  detector emits an alert (exactly one) exactly when \<open>daily\<close> is strictly greater than
  the computed product of \<open>normal\<close> and 5; the alert's severity is critical exactly when
  \<open>daily\<close> is strictly greater than the computed product of \<open>normal\<close> and 10 and high
  otherwise, and its velocity ratio is the computed quotient of \<open>daily\<close> by \<open>normal\<close>.
  The thresholds are the rounded products, which need not be the exact multiples.
\<close>

theorem detectReferralVelocityAnomalies_threshold:
  fixes ar alertId now nowMs partner referrals
  defines "daily \<equiv> of_nat (length (filter
              (\<lambda>r. getTime now - getTime (ref_createdAt r) < 24 * 60 * 60 * 1000) referrals))"
    and "normal \<equiv>
           max 1 (fdiv ar
                    (fdiv ar (fp_totalReferrals partner)
                       (max 1 (fdiv ar (of_int (nowMs - getTime (fp_joinDate partner)))
                                 (7 * 24 * 60 * 60 * 1000))))
                    7)"
  shows "(detectReferralVelocityAnomalies ar alertId now nowMs partner referrals \<noteq> []
            \<longleftrightarrow> daily > fmul ar normal 5)
       \<and> length (detectReferralVelocityAnomalies ar alertId now nowMs partner referrals) \<le> 1
       \<and> (\<forall>a \<in> set (detectReferralVelocityAnomalies ar alertId now nowMs partner referrals).
             (fa_severity a = Critical \<longleftrightarrow> daily > fmul ar normal 10)
           \<and> (fa_severity a = High \<longleftrightarrow> \<not> daily > fmul ar normal 10)
           \<and> fa_velocityRatio a = fdiv ar daily normal
           \<and> fa_partnerId a = fp_id partner)"
proof -
  have d: "of_nat (length (recentReferrals now referrals)) = daily"
    by (simp only: recentReferrals_def daily_def)
  have n: "calculateNormalReferralVelocity ar nowMs partner = normal"
    by (simp only: calculateNormalReferralVelocity_def normal_def Let_def)
  show ?thesis
    unfolding detectReferralVelocityAnomalies_def Let_def d n by simp
qed

text \<open>
  The scenario of the claim: 47 referrals in 24 hours against 5 a week. The normal
  velocity is 1, the alert is emitted, its severity is critical and its ratio is 47.
\<close>

theorem detectReferralVelocityAnomalies_threshold_witness:
  "detectReferralVelocityAnomalies exactArith ''a1'' ex_date 1736035200000 (ex_fraudPartner 50)
       (replicate 47 ex_referral) \<noteq> []
   \<and> list_all (\<lambda>a. fa_severity a = Critical \<and> fa_velocityRatio a = 47)
       (detectReferralVelocityAnomalies exactArith ''a1'' ex_date 1736035200000
          (ex_fraudPartner 50) (replicate 47 ex_referral))"
proof -
  have daily: "of_nat (length (filter
                 (\<lambda>r. getTime ex_date - getTime (ref_createdAt r) < 24 * 60 * 60 * 1000)
                 (replicate 47 ex_referral))) = (47::rat)"
    by (simp add: fraud_ex_defs)
  have normal: "max 1 (fdiv exactArith
                  (fdiv exactArith (fp_totalReferrals (ex_fraudPartner 50))
                     (max 1 (fdiv exactArith
                               (of_int (1736035200000 - getTime (fp_joinDate (ex_fraudPartner 50))))
                               (7 * 24 * 60 * 60 * 1000))))
                  7) = (1::rat)"
    by (simp add: fraud_ex_defs exactArith_ops)
  from detectReferralVelocityAnomalies_threshold
         [of exactArith "''a1''" ex_date 1736035200000 "ex_fraudPartner 50"
            "replicate 47 ex_referral",
          unfolded daily normal]
  show ?thesis
    by (simp add: list_all_iff exactArith_ops)
qed

section \<open>Properties of the hierarchy manager\<close>

subsection \<open>Evaluation helpers and the store\<close>

lemmas hier_defs = getPartner_def getAllPartners_def getDirectDownline_def updatePartner_def
  applyUpdate_def noUpdate_def decodePath_def buildSponsorPath_def truthy_str_def

lemmas hier_ex_defs = ex_partner_def ex_chain_def ex_inactiveChild_def ex_date_def ex_later_def
  ex_config_def

lemma applyUpdate_id [simp]: "p_id (applyUpdate p u) = p_id p"
  by (simp add: applyUpdate_def)

lemma applyUpdate_sponsorId:
  "u_sponsorId u = None \<Longrightarrow> p_sponsorId (applyUpdate p u) = p_sponsorId p"
  by (simp add: applyUpdate_def)

lemma applyUpdate_level:
  "u_level u = None \<Longrightarrow> p_level (applyUpdate p u) = p_level p"
  by (simp add: applyUpdate_def)

lemma applyUpdate_teamVolume_only:
  "applyUpdate p (noUpdate\<lparr>u_teamVolume := Some v\<rparr>) = p\<lparr>p_teamVolume := v\<rparr>"
  by (simp add: applyUpdate_def noUpdate_def)

lemma getPartner_map:
  "(\<And>p. p_id (f p) = p_id p) \<Longrightarrow> getPartner (map f s) j = map_option f (getPartner s j)"
  by (induction s) (simp_all add: getPartner_def)

lemma getPartner_updatePartner:
  "getPartner (updatePartner s i u) j
     = map_option (\<lambda>p. if p_id p = i then applyUpdate p u else p) (getPartner s j)"
  unfolding updatePartner_def by (rule getPartner_map) simp

lemma getPartner_Some_mem: "getPartner s i = Some p \<Longrightarrow> p \<in> set s \<and> p_id p = i"
  by (induction s) (auto simp: getPartner_def split: if_splits)

lemma getPartner_distinct:
  "distinct (map p_id s) \<Longrightarrow> p \<in> set s \<Longrightarrow> getPartner s (p_id p) = Some p"
  by (induction s) (auto simp: getPartner_def)

lemma ids_updatePartner [simp]: "map p_id (updatePartner s i u) = map p_id s"
  by (simp add: updatePartner_def)

subsection \<open>getUplineHierarchy\<close>

text \<open>
  Claim C3. The code contradicts the claim and its own comment (\<open>Top-level sponsor
  first\<close>): the path is decoded root-first, the sponsors are pushed in that order, and
  the list is then reversed. For \<open>c\<close> with path \<open>r/m\<close> the result is \<open>m\<close>, the immediate
  sponsor (itself sponsored by \<open>r\<close>), followed by the root \<open>r\<close>.
\<close>

theorem getUplineHierarchy_immediate_sponsor_first:
  "decodePath (p_sponsorPath (ex_partner ''c'' (Some ''m'') ''r/m'' 3 Active 10)) = [''r'', ''m'']
   \<and> map p_id (getUplineHierarchy ex_chain ''c'') = [''m'', ''r'']
   \<and> map p_sponsorId (getUplineHierarchy ex_chain ''c'') = [Some ''r'', None]"
  by (simp add: getUplineHierarchy_def hier_defs hier_ex_defs)

subsection \<open>Deactivation and moves\<close>

text \<open>
  Claim C4. The claim fails on the code at the case it names. Deactivating the root \<open>r\<close>
  of the chain \<open>r\<close>, \<open>m\<close>, \<open>c\<close> makes the direct child \<open>m\<close> a root (level 1, empty path)
  and leaves the grandchild \<open>c\<close> as it was, at level 3 with path \<open>r/m\<close> under a sponsor
  of level 1: the branch for a partner without sponsor does not call
  \<open>updateDownlineLevelsAndPaths\<close>, which the move to a sponsor does. The store satisfies
  the invariants before the call and not after it.
\<close>

theorem deactivate_root_leaves_grandchild_stale:
  "hierarchyInvariant ex_chain
   \<and> map_option
        (\<lambda>(e, s). (e, map (\<lambda>p. (p_id p, p_sponsorId p, p_sponsorPath p, p_level p)) s,
                    hierarchyInvariant s))
        (deactivatePartner (ex_config [] []) ''2025-01-05T00:00:00.000Z'' ex_chain ''r''
           ''left'' True)
     = Some (None,
             [(''r'', None, [], 1), (''m'', None, [], 1), (''c'', Some ''m'', ''r/m'', 3)],
             False)"
  by (simp add: deactivatePartner_def hierarchyInvariant_def hier_defs hier_ex_defs)

text \<open>
  A second defect breaks the same invariants: \<open>updateDownlineLevelsAndPaths\<close> appends
  the child's own id to the path it writes. Moving \<open>m\<close> under a new root \<open>x\<close> gives its
  child \<open>c\<close> the path \<open>x/m/c\<close> at level 3.
\<close>

lemma movePartner_child_path_holds_own_id:
  "map_option (map_sum id (map (\<lambda>p. (p_id p, p_sponsorId p, p_sponsorPath p, p_level p))))
     (movePartner (ex_config [] []) (ex_chain @ [ex_partner ''x'' None [] 1 Active 0]) ''m'' ''x'')
   = Some (Inr [(''r'', None, [], 1), (''m'', Some ''x'', ''x'', 2),
                (''c'', Some ''m'', ''x/m/c'', 3), (''x'', None, [], 1)])"
  by (simp add: movePartner_def getDownlineHierarchy_def updateSponsorDownlineCounts_def
      updateDownlineLevelsAndPaths_def updateUplineTotalDownline.simps updateDownlineLoop.simps
      hier_defs hier_ex_defs Let_def)

subsection \<open>Moving a partner under its own descendant\<close>

lemma onChain_None [simp]: "\<not> onChain s None x"
  by (auto elim: onChain.cases simp: truthy_str_def)

lemma onChain_Some:
  "onChain s (Some a) x
     = (case getPartner s a of
          None \<Rightarrow> False
        | Some sponsor \<Rightarrow> a \<noteq> [] \<and> (x = a \<or> onChain s (p_sponsorId sponsor) x))"
proof (cases "getPartner s a")
  case None
  then show ?thesis by (auto elim: onChain.cases)
next
  case (Some sponsor)
  show ?thesis
  proof
    assume "onChain s (Some a) x"
    then show "case getPartner s a of None \<Rightarrow> False
               | Some sponsor \<Rightarrow> a \<noteq> [] \<and> (x = a \<or> onChain s (p_sponsorId sponsor) x)"
      using Some by (cases rule: onChain.cases) (auto simp: truthy_str_def)
  next
    assume "case getPartner s a of None \<Rightarrow> False
            | Some sponsor \<Rightarrow> a \<noteq> [] \<and> (x = a \<or> onChain s (p_sponsorId sponsor) x)"
    with Some have a: "a \<noteq> []" and x: "x = a \<or> onChain s (p_sponsorId sponsor) x" by auto
    from x show "onChain s (Some a) x"
    proof
      assume "x = a"
      with onChain.here [of "Some a" s sponsor] a Some show ?thesis
        by (simp add: truthy_str_def)
    next
      assume "onChain s (p_sponsorId sponsor) x"
      with onChain.up [of "Some a" s sponsor x] a Some show ?thesis
        by (simp add: truthy_str_def)
    qed
  qed
qed

lemma twoCycleAt_update:
  "u_sponsorId u = None \<Longrightarrow> twoCycleAt (updatePartner s i u) a = twoCycleAt s a"
  by (auto simp: twoCycleAt_def getPartner_updatePartner applyUpdate_sponsorId
      split: option.splits)

lemma twoCycleAt_sponsor:
  "twoCycleAt s a \<Longrightarrow> getPartner s a = Some pa \<Longrightarrow>
     \<exists>b. p_sponsorId pa = Some b \<and> b \<noteq> [] \<and> twoCycleAt s b"
  by (auto simp: twoCycleAt_def split: option.splits)

lemma updateUplineTotalDownline_returns_no_cycle:
  assumes "updateUplineTotalDownline s0 a0 d0 = Some y0"
  shows "\<not> twoCycleAt s0 a0"
proof (rule updateUplineTotalDownline.raw_induct
         [where P = "\<lambda>s a d y. \<not> twoCycleAt s a", OF _ assms], goal_cases)
  case (1 walk s a d y)
  show ?case
  proof
    assume cyc: "twoCycleAt s a"
    then obtain pa where pa: "getPartner s a = Some pa"
      by (auto simp: twoCycleAt_def split: option.splits)
    from twoCycleAt_sponsor [OF cyc pa] obtain b
      where b: "p_sponsorId pa = Some b" "b \<noteq> []" "twoCycleAt s b" by blast
    let ?s1 = "updatePartner s a
                 (noUpdate\<lparr>u_totalDownline := Some (max 0 (p_totalDownline pa + d))\<rparr>)"
    from 1(2) pa b have "walk ?s1 b d = Some y"
      by (simp add: Let_def truthy_str_def)
    from 1(1) [OF this] have "\<not> twoCycleAt ?s1 b" .
    moreover have "twoCycleAt ?s1 b"
      using b(3) by (simp add: twoCycleAt_update noUpdate_def)
    ultimately show False by contradiction
  qed
qed

lemma updateUplineTotalDownline_diverges:
  "twoCycleAt s a \<Longrightarrow> updateUplineTotalDownline s a d = None"
  using updateUplineTotalDownline_returns_no_cycle [of s a d]
  by (cases "updateUplineTotalDownline s a d") auto

text \<open>
  Claim C2. The guard of \<open>movePartner\<close> asks \<open>getDownlineHierarchy\<close> with its defaults,
  which list only active partners at most 5 levels down, so a descendant that is
  inactive (or deeper) passes it. For the root \<open>p\<close> and its inactive child \<open>s\<close> the
  downline seen by the guard is empty although \<open>p\<close> is an ancestor of \<open>s\<close>;
  \<open>movePartner p s\<close> does not fail with \<open>SelfCycle\<close>: it makes \<open>s\<close> the sponsor of \<open>p\<close>
  and then walks the sponsor cycle it has created for ever, so the call never returns.
\<close>

theorem movePartner_under_inactive_descendant_diverges:
  "isAncestor ex_inactiveChild ''p'' ''s''
   \<and> getDownlineHierarchy ex_inactiveChild ''p'' 5 True = []
   \<and> movePartner (ex_config [] []) ex_inactiveChild ''p'' ''s'' = None"
  by (simp add: movePartner_def getDownlineHierarchy_def updateSponsorDownlineCounts_def
      updateUplineTotalDownline_diverges twoCycleAt_def isAncestor_def onChain_Some
      hier_defs hier_ex_defs Let_def)

subsection \<open>Volume propagation\<close>

lemma onChain_updatePartner:
  assumes u: "u_sponsorId u = None"
  shows "onChain (updatePartner s i u) start x = onChain s start x"
proof
  assume "onChain (updatePartner s i u) start x"
  then show "onChain s start x"
  proof (induction rule: onChain.induct)
    case (here start sponsor)
    then show ?case
      by (auto simp: getPartner_updatePartner intro: onChain.here)
  next
    case (up start sponsor x)
    from up(2) obtain sp0 where sp0: "getPartner s (the start) = Some sp0"
      and sp: "sponsor = (if p_id sp0 = i then applyUpdate sp0 u else sp0)"
      by (auto simp: getPartner_updatePartner)
    from sp u have "p_sponsorId sponsor = p_sponsorId sp0"
      by (simp add: applyUpdate_sponsorId)
    with up(4) onChain.up [OF up(1) sp0] show ?case by simp
  qed
next
  assume "onChain s start x"
  then show "onChain (updatePartner s i u) start x"
  proof (induction rule: onChain.induct)
    case (here start sponsor)
    then show ?case
      by (auto simp: getPartner_updatePartner intro: onChain.here)
  next
    case (up start sponsor x)
    let ?sp = "if p_id sponsor = i then applyUpdate sponsor u else sponsor"
    have g: "getPartner (updatePartner s i u) (the start) = Some ?sp"
      using up(2) by (simp add: getPartner_updatePartner)
    have "p_sponsorId ?sp = p_sponsorId sponsor"
      using u by (simp add: applyUpdate_sponsorId)
    with up(4) onChain.up [OF up(1) g] show ?case by simp
  qed
qed

lemma sponsorLevelsOrdered_updatePartner:
  assumes us: "u_sponsorId u = None" and ul: "u_level u = None"
    and ord: "sponsorLevelsOrdered s"
  shows "sponsorLevelsOrdered (updatePartner s i u)"
  unfolding sponsorLevelsOrdered_def list_all_iff
proof
  let ?f = "\<lambda>p. if p_id p = i then applyUpdate p u else p"
  fix p' assume "p' \<in> set (updatePartner s i u)"
  then obtain p where p: "p \<in> set s" and p': "p' = ?f p"
    by (auto simp: updatePartner_def)
  have sp: "p_sponsorId p' = p_sponsorId p" and lp: "p_level p' = p_level p"
    using p' by (simp_all add: applyUpdate_sponsorId [OF us] applyUpdate_level [OF ul])
  from ord p have old: "case p_sponsorId p of None \<Rightarrow> True
      | Some b \<Rightarrow> (case getPartner s b of None \<Rightarrow> True | Some q \<Rightarrow> p_level q < p_level p)"
    by (simp add: sponsorLevelsOrdered_def list_all_iff)
  show "case p_sponsorId p' of None \<Rightarrow> True
      | Some b \<Rightarrow> (case getPartner (updatePartner s i u) b of
                     None \<Rightarrow> True | Some q \<Rightarrow> p_level q < p_level p')"
  proof (cases "p_sponsorId p")
    case None
    then show ?thesis by (simp add: sp)
  next
    case (Some b)
    show ?thesis
    proof (cases "getPartner s b")
      case None
      then show ?thesis by (simp add: sp Some getPartner_updatePartner)
    next
      case q: (Some q)
      with old Some have "p_level q < p_level p" by simp
      then show ?thesis
        by (simp add: sp lp Some q getPartner_updatePartner applyUpdate_level [OF ul])
    qed
  qed
qed

lemma levels_updatePartner:
  assumes "u_level u = None" and "\<forall>p\<in>set s. L \<le> p_level p"
  shows "\<forall>p\<in>set (updatePartner s i u). L \<le> p_level p"
  using assms by (auto simp: updatePartner_def applyUpdate_level)

lemma sponsorLevelsOrdered_sponsor:
  assumes "sponsorLevelsOrdered s" and "getPartner s c = Some p" and "p_sponsorId p = Some a"
    and "getPartner s a = Some sp"
  shows "p_level sp < p_level p"
proof -
  from getPartner_Some_mem [OF assms(2)] have "p \<in> set s" by simp
  with assms(1) have "case p_sponsorId p of None \<Rightarrow> True
      | Some i \<Rightarrow> (case getPartner s i of None \<Rightarrow> True | Some sp \<Rightarrow> p_level sp < p_level p)"
    by (simp add: sponsorLevelsOrdered_def list_all_iff)
  with assms(3,4) show ?thesis by simp
qed

lemma onChain_level:
  "onChain s start x \<Longrightarrow> sponsorLevelsOrdered s \<Longrightarrow>
     \<exists>sp px. start \<noteq> None \<and> getPartner s (the start) = Some sp \<and> getPartner s x = Some px
        \<and> p_level px \<le> p_level sp"
proof (induction rule: onChain.induct)
  case (here start sponsor)
  then show ?case by (auto simp: truthy_str_def split: option.splits)
next
  case (up start sponsor x)
  from up.IH [OF up.prems] obtain sp' px where
    st: "p_sponsorId sponsor \<noteq> None" and
    sp': "getPartner s (the (p_sponsorId sponsor)) = Some sp'" and
    px: "getPartner s x = Some px" and le: "p_level px \<le> p_level sp'"
    by blast
  from st obtain a where a: "p_sponsorId sponsor = Some a" by auto
  from sponsorLevelsOrdered_sponsor [OF up.prems up.hyps(2) a] sp' a
  have "p_level sp' < p_level sponsor" by simp
  with le px up.hyps show ?case by (auto simp: truthy_str_def split: option.splits)
qed

lemma onChain_acyclic:
  assumes "sponsorLevelsOrdered s" and "getPartner s a = Some p"
  shows "\<not> onChain s (p_sponsorId p) a"
proof
  assume c: "onChain s (p_sponsorId p) a"
  from onChain_level [OF c assms(1)] assms(2) obtain sp where
    st: "p_sponsorId p \<noteq> None" and sp: "getPartner s (the (p_sponsorId p)) = Some sp"
    and le: "p_level p \<le> p_level sp" by auto
  from st obtain b where b: "p_sponsorId p = Some b" by auto
  from sponsorLevelsOrdered_sponsor [OF assms(1) assms(2) b] sp b
  have "p_level sp < p_level p" by simp
  with le show False by simp
qed

lemma propagateVolumeUpdate_chain_aux:
  "distinct (map p_id s) \<Longrightarrow> sponsorLevelsOrdered s \<Longrightarrow> \<forall>p\<in>set s. L \<le> p_level p \<Longrightarrow>
   m = (case (if truthy_str start then getPartner s (the start) else None) of
          None \<Rightarrow> 0 | Some sp \<Rightarrow> Suc (nat (p_level sp - L))) \<Longrightarrow>
   propagateVolumeUpdate ar s start d
     = Some (map (\<lambda>q. if onChain s start (p_id q)
                       then q\<lparr>p_teamVolume := fadd ar (p_teamVolume q) d\<rparr> else q) s)"
proof (induction m arbitrary: s start rule: less_induct)
  case (less m)
  show ?case
  proof (cases "truthy_str start")
    case False
    then have "\<And>x. \<not> onChain s start x" by (auto elim: onChain.cases)
    with False show ?thesis
      by (subst propagateVolumeUpdate.simps) (simp add: map_idI)
  next
    case True
    then obtain a where a: "start = Some a" "a \<noteq> []"
      by (auto simp: truthy_str_def split: option.splits)
    show ?thesis
    proof (cases "getPartner s a")
      case None
      then have "\<And>x. \<not> onChain s start x" using a by (simp add: onChain_Some)
      with None a True show ?thesis
        by (subst propagateVolumeUpdate.simps) (simp add: map_idI)
    next
      case (Some sp)
      let ?u = "noUpdate\<lparr>u_teamVolume := Some (fadd ar (p_teamVolume sp) d)\<rparr>"
      let ?s1 = "updatePartner s a ?u"
      have u1: "u_sponsorId ?u = None" and u2: "u_level ?u = None"
        by (simp_all add: noUpdate_def)
      have spmem: "sp \<in> set s" and spid: "p_id sp = a"
        using getPartner_Some_mem [OF Some] by auto
      have m: "m = Suc (nat (p_level sp - L))"
        using less.prems(4) True a Some by simp
      let ?m1 = "case (if truthy_str (p_sponsorId sp)
                       then getPartner ?s1 (the (p_sponsorId sp)) else None) of
                   None \<Rightarrow> 0 | Some sp' \<Rightarrow> Suc (nat (p_level sp' - L))"
      have lt: "?m1 < m"
      proof (cases "truthy_str (p_sponsorId sp)")
        case False
        then show ?thesis using m by simp
      next
        case t: True
        then obtain b where b: "p_sponsorId sp = Some b"
          by (auto simp: truthy_str_def split: option.splits)
        show ?thesis
        proof (cases "getPartner s b")
          case None
          then show ?thesis using m t b by (simp add: getPartner_updatePartner)
        next
          case sb: (Some sp')
          from sponsorLevelsOrdered_sponsor [OF less.prems(2) Some b sb]
          have l: "p_level sp' < p_level sp" .
          from getPartner_Some_mem [OF sb] less.prems(3) have "L \<le> p_level sp'" by auto
          with l show ?thesis
            using m t b sb by (simp add: getPartner_updatePartner applyUpdate_level [OF u2])
        qed
      qed
      have IH: "propagateVolumeUpdate ar ?s1 (p_sponsorId sp) d
                 = Some (map (\<lambda>q. if onChain ?s1 (p_sponsorId sp) (p_id q)
                                   then q\<lparr>p_teamVolume := fadd ar (p_teamVolume q) d\<rparr> else q) ?s1)"
      proof (rule less.IH [OF lt _ _ _ refl])
        show "distinct (map p_id ?s1)" using less.prems(1) by simp
        show "sponsorLevelsOrdered ?s1"
          by (rule sponsorLevelsOrdered_updatePartner [OF u1 u2 less.prems(2)])
        show "\<forall>p\<in>set ?s1. L \<le> p_level p"
          by (rule levels_updatePartner [OF u2 less.prems(3)])
      qed
      have acyc: "\<not> onChain s (p_sponsorId sp) a"
        by (rule onChain_acyclic [OF less.prems(2) Some])
      have eq: "map (\<lambda>q. if onChain ?s1 (p_sponsorId sp) (p_id q)
                          then q\<lparr>p_teamVolume := fadd ar (p_teamVolume q) d\<rparr> else q) ?s1
                = map (\<lambda>q. if onChain s start (p_id q)
                           then q\<lparr>p_teamVolume := fadd ar (p_teamVolume q) d\<rparr> else q) s"
        unfolding updatePartner_def map_map
      proof (rule map_cong [OF refl])
        fix q assume q: "q \<in> set s"
        show "((\<lambda>q. if onChain (map (\<lambda>p. if p_id p = a then applyUpdate p ?u else p) s)
                          (p_sponsorId sp) (p_id q)
                    then q\<lparr>p_teamVolume := fadd ar (p_teamVolume q) d\<rparr> else q)
               \<circ> (\<lambda>p. if p_id p = a then applyUpdate p ?u else p)) q
              = (if onChain s start (p_id q)
                 then q\<lparr>p_teamVolume := fadd ar (p_teamVolume q) d\<rparr> else q)"
        proof (cases "p_id q = a")
          case True
          with getPartner_distinct [OF less.prems(1) q] Some have "q = sp" by simp
          then show ?thesis
            using acyc a Some spid
            by (simp add: onChain_updatePartner [OF u1, unfolded updatePartner_def]
                applyUpdate_teamVolume_only onChain_Some)
        next
          case False
          then show ?thesis
            using a Some
            by (simp add: onChain_updatePartner [OF u1, unfolded updatePartner_def] onChain_Some)
        qed
      qed
      show ?thesis
        using True a Some IH eq
        by (subst propagateVolumeUpdate.simps) simp
    qed
  qed
qed

lemma levels_bounded: "\<exists>L. \<forall>p\<in>set s. L \<le> p_level p"
  for s :: store
proof (induction s)
  case Nil
  then show ?case by simp
next
  case (Cons p s)
  then obtain L where "\<forall>q\<in>set s. L \<le> p_level q" by blast
  then have "\<forall>q\<in>set (p # s). min L (p_level p) \<le> p_level q" by auto
  then show ?case by blast
qed

lemma propagateVolumeUpdate_chain:
  assumes "distinct (map p_id s)" and "sponsorLevelsOrdered s"
  shows "propagateVolumeUpdate ar s start d
     = Some (map (\<lambda>q. if onChain s start (p_id q)
                       then q\<lparr>p_teamVolume := fadd ar (p_teamVolume q) d\<rparr> else q) s)"
proof -
  from levels_bounded obtain L where "\<forall>p\<in>set s. L \<le> p_level p" by blast
  from propagateVolumeUpdate_chain_aux [OF assms this refl] show ?thesis .
qed


text \<open>
  Claim C8. The code propagates the delta as the claim says (lemma below) but never
  writes the partner's own record: \<open>updatePartnerMetrics\<close> builds the merged record and
  returns it, and calls \<open>updatePartner\<close> only for the ancestors. Raising the team volume
  of \<open>c\<close> from 10 to 15 in the chain \<open>r\<close>, \<open>m\<close>, \<open>c\<close> returns a record with team volume 15,
  raises the ancestors to 35 and 25, and leaves the stored record of \<open>c\<close> as it was, with
  team volume 10. As the test for a change compares with the stored value, the same call
  made again propagates the same delta again: the ancestors reach 40 and 30. All the
  sums and differences here are of small integers, exact in doubles.
\<close>

theorem updatePartnerMetrics_leaves_stored_record:
  "(case updatePartnerMetrics exactArith ex_later ex_chain ''c''
           (noUpdate\<lparr>u_teamVolume := Some 15\<rparr>) of
      Some (Inr (updatedPartner, s')) \<Rightarrow>
        p_teamVolume updatedPartner = 15
        \<and> map (\<lambda>p. (p_id p, p_teamVolume p)) s' = [(''r'', 35), (''m'', 25), (''c'', 10)]
        \<and> getPartner s' ''c'' = getPartner ex_chain ''c''
        \<and> (case updatePartnerMetrics exactArith ex_later s' ''c''
                   (noUpdate\<lparr>u_teamVolume := Some 15\<rparr>) of
              Some (Inr (updatedAgain, s'')) \<Rightarrow>
                map (\<lambda>p. (p_id p, p_teamVolume p)) s'' = [(''r'', 40), (''m'', 30), (''c'', 10)]
            | _ \<Rightarrow> False)
    | _ \<Rightarrow> False)"
  by (simp add: updatePartnerMetrics_def propagateVolumeUpdate.simps exactArith_ops
      hier_defs hier_ex_defs)

text \<open>
  The propagation itself, whatever the rounding of the double operations. In a store
  with distinct ids in which every sponsor that resolves has a smaller level than the
  partner it sponsors, \<open>updatePartnerMetrics\<close> on a stored partner returns. It yields the
  partner's record with the partial update applied and \<open>updated_at\<close> set to the clock
  reading. When the update carries a team volume other than the stored one, the store
  after the call is the one in which exactly the ancestors of the partner (the partners
  met by walking the sponsor chain hop by hop from the partner's sponsor) have as team
  volume the computed sum of their stored team volume and \<open>delta\<close>, the computed
  difference of the new team volume and the stored one; otherwise the store is as
  before. Every other field of an ancestor and every other partner are unchanged.
\<close>

lemma updatePartnerMetrics_propagates_delta:
  assumes "distinct (map p_id s)" and "sponsorLevelsOrdered s"
    and "getPartner s partnerId = Some partner"
  shows "updatePartnerMetrics ar now s partnerId metrics
           = Some (Inr ((applyUpdate partner metrics)\<lparr>p_updated_at := now\<rparr>,
                (case u_teamVolume metrics of
                   None \<Rightarrow> s
                 | Some v \<Rightarrow>
                     if v = p_teamVolume partner then s
                     else map (\<lambda>q. if isAncestor s (p_id q) partnerId
                                    then q\<lparr>p_teamVolume :=
                                             fadd ar (p_teamVolume q)
                                               (fsub ar v (p_teamVolume partner))\<rparr>
                                    else q) s)))"
proof -
  have anc: "\<And>x. isAncestor s x partnerId = onChain s (p_sponsorId partner) x"
    by (simp add: isAncestor_def assms(3))
  show ?thesis
    unfolding anc
    by (simp add: updatePartnerMetrics_def assms(3)
        propagateVolumeUpdate_chain [OF assms(1,2)] split: option.splits)
qed

lemma updatePartnerMetrics_propagates_delta_example:
  "updatePartnerMetrics exactArith ex_later ex_chain ''c'' (noUpdate\<lparr>u_teamVolume := Some 15\<rparr>)
     = Some (Inr ((ex_partner ''c'' (Some ''m'') ''r/m'' 3 Active 15)\<lparr>p_updated_at := ex_later\<rparr>,
                  [ex_partner ''r'' None [] 1 Active 35,
                   ex_partner ''m'' (Some ''r'') ''r'' 2 Active 25,
                   ex_partner ''c'' (Some ''m'') ''r/m'' 3 Active 10]))"
proof -
  have d: "distinct (map p_id ex_chain)"
    by (simp add: hier_ex_defs)
  have ord: "sponsorLevelsOrdered ex_chain"
    by (simp add: sponsorLevelsOrdered_def hier_defs hier_ex_defs)
  have g: "getPartner ex_chain ''c'' = Some (ex_partner ''c'' (Some ''m'') ''r/m'' 3 Active 10)"
    by (simp add: hier_defs hier_ex_defs)
  have anc: "isAncestor ex_chain ''r'' ''c''" "isAncestor ex_chain ''m'' ''c''"
    "\<not> isAncestor ex_chain ''c'' ''c''"
    by (simp_all add: isAncestor_def onChain_Some hier_defs hier_ex_defs)
  from updatePartnerMetrics_propagates_delta
         [OF d ord g, of exactArith ex_later "noUpdate\<lparr>u_teamVolume := Some 15\<rparr>"]
  show ?thesis
    using anc
    by (simp add: ex_chain_def ex_partner_def applyUpdate_def noUpdate_def exactArith_ops)
qed


end
